theory Spec2Isabelle
  imports Complex_Main "HOL-Library.Sublist"
begin

section \<open>Values of the JavaScript runtime that the migration script handles\<close>

text \<open>
  The script \<^verbatim>\<open>src/migrateData.ts\<close> is TypeScript: its type annotations are erased
  before it runs.  A property read \<^verbatim>\<open>obj[key]\<close> on an object literal answers with the
  object's own property when it has one, otherwise with the property that the object
  inherits from \<^verbatim>\<open>Object.prototype\<close>, otherwise with \<^verbatim>\<open>undefined\<close>.  The values such a
  read can produce are modelled by \<open>js_value\<close>: a built-in function or object is
  identified by its name.
\<close>

datatype js_value =
    JUndefined
  | JString string
  | JFunction string
  | JObject string

text \<open>Truthiness, as \<^verbatim>\<open>||\<close>, \<^verbatim>\<open>!\<close> and \<^verbatim>\<open>if\<close> test it.\<close>

fun truthy :: "js_value \<Rightarrow> bool" where
  "truthy JUndefined = False"
| "truthy (JString s) = (s \<noteq> [])"
| "truthy (JFunction f) = True"
| "truthy (JObject ob) = True"

text \<open>
  The properties of \<^verbatim>\<open>Object.prototype\<close> (ECMAScript, with the legacy accessors that
  Node.js keeps): eleven functions, and the accessor \<^verbatim>\<open>__proto__\<close> whose getter answers
  with the prototype of the object that was read, here \<^verbatim>\<open>Object.prototype\<close> itself.
\<close>

definition Object_prototype :: "(string \<times> js_value) list" where
  "Object_prototype =
    [(''constructor'', JFunction ''Object''),
     (''__defineGetter__'', JFunction ''__defineGetter__''),
     (''__defineSetter__'', JFunction ''__defineSetter__''),
     (''hasOwnProperty'', JFunction ''hasOwnProperty''),
     (''__lookupGetter__'', JFunction ''__lookupGetter__''),
     (''__lookupSetter__'', JFunction ''__lookupSetter__''),
     (''isPrototypeOf'', JFunction ''isPrototypeOf''),
     (''propertyIsEnumerable'', JFunction ''propertyIsEnumerable''),
     (''toString'', JFunction ''toString''),
     (''valueOf'', JFunction ''valueOf''),
     (''__proto__'', JObject ''Object.prototype''),
     (''toLocaleString'', JFunction ''toLocaleString'')]"

text \<open>\<^verbatim>\<open>obj[key]\<close> for an object literal whose own properties are the strings \<open>own\<close>.\<close>

definition js_get :: "(string \<times> string) list \<Rightarrow> string \<Rightarrow> js_value" where
  "js_get own key =
    (case map_of own key of
       Some v \<Rightarrow> JString v
     | None \<Rightarrow> (case map_of Object_prototype key of
                  Some v \<Rightarrow> v
                | None \<Rightarrow> JUndefined))"

section \<open>Building-name normalisation\<close>

text \<open>The table \<^verbatim>\<open>buildingNameMap\<close> (migrateData.ts, lines 67 to 83).\<close>

definition buildingNameMap :: "(string \<times> string) list" where
  "buildingNameMap =
    [(''Peters'', ''Peters Building''),
     (''Peters Building'', ''Peters Building''),
     (''Lazaridis Hall'', ''Lazaridis Hall''),
     (''Science Building'', ''Science Building''),
     (''Science & Research'', ''Science Building''),
     (''Dr. Alvin Woods Building'', ''Dr. Alvin Woods Building''),
     (''Fred Nichols Campus Center'', ''Fred Nichols Campus Center''),
     (''Fred Nichols Campus Centre'', ''Fred Nichols Campus Center''),
     (''Schlegel'', ''Schlegel Building''),
     (''Schlegel Building'', ''Schlegel Building''),
     (''Bricker Academic Building'', ''Bricker Academic Building''),
     (''University Library'', ''University Library''),
     (''Arts'', ''Arts Building''),
     (''Arts Building'', ''Arts Building''),
     (''MLU'', ''Martin Luther University College'')]"

text \<open>
  \<^verbatim>\<open>function normalizeBuildingName(name) { return buildingNameMap[name] || name; }\<close>
\<close>

definition normalizeBuildingName :: "string \<Rightarrow> js_value" where
  "normalizeBuildingName name =
    (let v = js_get buildingNameMap name in if truthy v then v else JString name)"

section \<open>Source records\<close>

text \<open>
  The interfaces \<^verbatim>\<open>StudyRoomData\<close> and \<^verbatim>\<open>RoomData\<close> (lines 40 to 64).  A field that the
  interface marks optional, or that the code tests for absence before use, is an
  \<open>option\<close>: \<open>None\<close> is a field missing from the JSON record.
\<close>

record StudyRoomData =
  sr_id :: string
  sr_name :: string
  sr_building :: string
  sr_spaceType :: "string option"
  sr_location :: string
  sr_imageURL :: "string list option"
  sr_features :: "string list"
  sr_noiseLevel :: string
  sr_capacity :: "nat option"
  sr_description :: string

record Information =
  av_inputs :: "string option"
  pc :: "string option"
  whiteboard :: "string option"
  projector :: "string option"

record RoomData =
  rd_id :: string
  rd_building :: string
  rd_photos :: "string list option"
  rd_room :: string
  rd_information :: Information

section \<open>Destination store, object storage and the services around them\<close>

datatype model = Photo | StudySpot | LectureHall | Building | University

datatype err =
    ExternalError string
  | BuildingNotFound js_value
  | Wrapped string err

text \<open>
  The entries of \<^verbatim>\<open>stats.errors\<close>.  The script pushes template strings such as
  \<^verbatim>\<open>Failed to create building ${buildingName}: ${error}\<close>; an entry keeps the parts of
  the template, one constructor for each of the five templates.
\<close>

datatype error_message =
    FailedToCreateBuilding js_value err
  | FailedToCreateStudySpot string err
  | FailedToCreateLectureHall string err
  | FailedToProcessPhotoForStudySpot string err
  | FailedToProcessPhotoForLectureHall string err

record university_data =
  u_name :: string
  u_slug :: string

record building_data =
  b_name :: js_value
  b_universityId :: string

record studySpot_data =
  ss_name :: string
  ss_buildingId :: string
  ss_location :: string
  ss_description :: string
  ss_features :: "string list"
  ss_noiseLevel :: string
  ss_spaceType :: "string option"

record lectureHall_data =
  lh_buildingId :: string
  lh_room :: string
  hasAvInputs :: bool
  hasPc :: bool
  hasWhiteboard :: bool
  hasProjector :: bool

record photo_data =
  ph_storagePath :: string
  ph_url :: string
  ph_studySpotId :: "string option"
  ph_lectureHallId :: "string option"

type_synonym buffer = string

text \<open>Every call that leaves the process, in the order in which it is made.\<close>

datatype call =
    DeleteMany model
  | ListBuckets
  | CreateBucket string
  | Create model
  | HttpGet string
  | SharpMetadata
  | SharpResizeWebp nat nat nat
  | Upload string

text \<open>
  The services are not part of the repository.  Each one is a parameter: a function of
  the request and of the state \<open>'w\<close> of the outside world, which decides whether the
  call throws (\<open>Inl\<close>, or \<open>Some\<close> for a call without a result) and what comes next.
  A \<^verbatim>\<open>create\<close> answers with the identifier of the new row.
\<close>

record 'w services =
  prisma_deleteMany :: "model \<Rightarrow> 'w \<Rightarrow> err option \<times> 'w"
  storage_listBuckets :: "'w \<Rightarrow> (err + string list) \<times> 'w"
  storage_createBucket :: "string \<Rightarrow> 'w \<Rightarrow> err option \<times> 'w"
  university_create :: "university_data \<Rightarrow> 'w \<Rightarrow> (err + string) \<times> 'w"
  building_create :: "building_data \<Rightarrow> 'w \<Rightarrow> (err + string) \<times> 'w"
  studySpot_create :: "studySpot_data \<Rightarrow> 'w \<Rightarrow> (err + string) \<times> 'w"
  lectureHall_create :: "lectureHall_data \<Rightarrow> 'w \<Rightarrow> (err + string) \<times> 'w"
  photo_create :: "photo_data \<Rightarrow> 'w \<Rightarrow> (err + string) \<times> 'w"
  axios_get :: "string \<Rightarrow> 'w \<Rightarrow> (err + buffer) \<times> 'w"
  sharp_metadata :: "buffer \<Rightarrow> 'w \<Rightarrow> (err + nat option \<times> nat option) \<times> 'w"
  sharp_resize_webp :: "buffer \<Rightarrow> nat \<Rightarrow> nat \<Rightarrow> nat \<Rightarrow> 'w \<Rightarrow> (err + buffer) \<times> 'w"
  storage_upload :: "string \<Rightarrow> buffer \<Rightarrow> 'w \<Rightarrow> err option \<times> 'w"
  storage_getPublicUrl :: "string \<Rightarrow> string"

text \<open>
  What a run can change: the outside world, the log of calls, the five tables (a row is
  its identifier and its data), the bucket's objects, and the counters and error list of
  \<^verbatim>\<open>stats\<close> (lines 86 to 93).
\<close>

record 'w system =
  world :: 'w
  calls :: "call list"
  photo_table :: "(string \<times> photo_data) list"
  studySpot_table :: "(string \<times> studySpot_data) list"
  lectureHall_table :: "(string \<times> lectureHall_data) list"
  building_table :: "(string \<times> building_data) list"
  university_table :: "(string \<times> university_data) list"
  bucket_objects :: "(string \<times> buffer) list"
  stats_university :: nat
  stats_buildings :: nat
  stats_studySpots :: nat
  stats_lectureHalls :: nat
  stats_photos :: nat
  stats_errors :: "error_message list"

definition perform :: "call \<Rightarrow> ('w \<Rightarrow> 'r \<times> 'w) \<Rightarrow> 'w system \<Rightarrow> 'r \<times> 'w system" where
  "perform c f st =
    (case f (world st) of (r, w') \<Rightarrow> (r, st\<lparr>world := w', calls := calls st @ [c]\<rparr>))"

definition pushError :: "error_message \<Rightarrow> 'w system \<Rightarrow> 'w system" where
  "pushError e st = st\<lparr>stats_errors := stats_errors st @ [e]\<rparr>"

definition STORAGE_BUCKET :: string where
  "STORAGE_BUCKET = ''occupeye-photos''"

section \<open>Setup: clearing the tables and ensuring the bucket\<close>

fun emptyTable :: "model \<Rightarrow> 'w system \<Rightarrow> 'w system" where
  "emptyTable Photo st = st\<lparr>photo_table := []\<rparr>"
| "emptyTable StudySpot st = st\<lparr>studySpot_table := []\<rparr>"
| "emptyTable LectureHall st = st\<lparr>lectureHall_table := []\<rparr>"
| "emptyTable Building st = st\<lparr>building_table := []\<rparr>"
| "emptyTable University st = st\<lparr>university_table := []\<rparr>"

text \<open>\<^verbatim>\<open>prisma.<model>.deleteMany()\<close>: without a filter it removes every row, or throws.\<close>

definition deleteMany :: "'w services \<Rightarrow> model \<Rightarrow> 'w system \<Rightarrow> err option \<times> 'w system" where
  "deleteMany sv t st =
    (case perform (DeleteMany t) (prisma_deleteMany sv t) st of
       (Some e, s1) \<Rightarrow> (Some e, s1)
     | (None, s1) \<Rightarrow> (None, emptyTable t s1))"

text \<open>Sequencing of statements that may throw: the first error ends the block.\<close>

definition andThen ::
  "err option \<times> 's \<Rightarrow> ('s \<Rightarrow> err option \<times> 's) \<Rightarrow> err option \<times> 's" where
  "andThen r f = (case r of (Some e, s) \<Rightarrow> (Some e, s) | (None, s) \<Rightarrow> f s)"

text \<open>\<^verbatim>\<open>clearExistingData\<close> (lines 137 to 161).\<close>

definition clearExistingData :: "'w services \<Rightarrow> 'w system \<Rightarrow> err option \<times> 'w system" where
  "clearExistingData sv st =
    (case andThen (andThen (andThen (andThen
            (deleteMany sv Photo st)
            (deleteMany sv StudySpot))
            (deleteMany sv LectureHall))
            (deleteMany sv Building))
            (deleteMany sv University) of
       (Some e, s) \<Rightarrow> (Some (Wrapped ''Failed to clear existing data'' e), s)
     | (None, s) \<Rightarrow> (None, s))"

text \<open>\<^verbatim>\<open>ensureStorageBucket\<close> (lines 98 to 132).\<close>

definition ensureStorageBucket :: "'w services \<Rightarrow> 'w system \<Rightarrow> err option \<times> 'w system" where
  "ensureStorageBucket sv st =
    (case perform ListBuckets (storage_listBuckets sv) st of
       (Inl listError, s1) \<Rightarrow>
         (Some (Wrapped ''Storage bucket setup failed''
                  (Wrapped ''Failed to list buckets'' listError)), s1)
     | (Inr buckets, s1) \<Rightarrow>
         if STORAGE_BUCKET \<in> set buckets then (None, s1)
         else (case perform (CreateBucket STORAGE_BUCKET)
                      (storage_createBucket sv STORAGE_BUCKET) s1 of
                 (Some createError, s2) \<Rightarrow>
                   (Some (Wrapped ''Storage bucket setup failed''
                            (Wrapped ''Failed to create bucket'' createError)), s2)
               | (None, s2) \<Rightarrow> (None, s2)))"

section \<open>Step 1: the university\<close>

text \<open>\<^verbatim>\<open>createUniversity\<close> (lines 238 to 251); an error of the store is not caught here.\<close>

definition createUniversity :: "'w services \<Rightarrow> 'w system \<Rightarrow> (err + string) \<times> 'w system" where
  "createUniversity sv st =
    (let d = \<lparr>u_name = ''Wilfrid Laurier University'', u_slug = ''wilfrid-laurier''\<rparr> in
     case perform (Create University) (university_create sv d) st of
       (Inl e, s1) \<Rightarrow> (Inl e, s1)
     | (Inr universityId, s1) \<Rightarrow>
         (Inr universityId,
          s1\<lparr>university_table := university_table s1 @ [(universityId, d)],
             stats_university := 1\<rparr>))"

section \<open>Step 2: buildings\<close>

text \<open>\<^verbatim>\<open>Set.prototype.add\<close>: a set keeps its elements in insertion order, each once.\<close>

definition set_add :: "'a \<Rightarrow> 'a list \<Rightarrow> 'a list" where
  "set_add x xs = (if x \<in> set xs then xs else xs @ [x])"

text \<open>
  The body of both \<^verbatim>\<open>forEach\<close> loops (lines 269 to 279):
  \<^verbatim>\<open>if (room.building) buildingNames.add(normalizeBuildingName(room.building))\<close>.
\<close>

definition addBuildingName :: "string \<Rightarrow> js_value list \<Rightarrow> js_value list" where
  "addBuildingName building buildingNames =
    (if building \<noteq> [] then set_add (normalizeBuildingName building) buildingNames
     else buildingNames)"

definition collectBuildingNames :: "StudyRoomData list \<Rightarrow> RoomData list \<Rightarrow> js_value list" where
  "collectBuildingNames studyRooms rooms =
    fold (\<lambda>room. addBuildingName (rd_building room)) rooms
      (fold (\<lambda>room. addBuildingName (sr_building room)) studyRooms [])"

text \<open>The body of the loop over \<^verbatim>\<open>buildingNames\<close> (lines 284 to 301).\<close>

definition createBuilding ::
  "'w services \<Rightarrow> string \<Rightarrow> js_value \<Rightarrow> (js_value \<rightharpoonup> string) \<times> 'w system \<Rightarrow>
   (js_value \<rightharpoonup> string) \<times> 'w system" where
  "createBuilding sv universityId buildingName acc =
    (case acc of (buildingMap, st) \<Rightarrow>
      (let d = \<lparr>b_name = buildingName, b_universityId = universityId\<rparr> in
       case perform (Create Building) (building_create sv d) st of
         (Inr buildingId, s1) \<Rightarrow>
           (buildingMap(buildingName \<mapsto> buildingId),
            s1\<lparr>building_table := building_table s1 @ [(buildingId, d)],
               stats_buildings := stats_buildings s1 + 1\<rparr>)
       | (Inl e, s1) \<Rightarrow>
           (buildingMap, pushError (FailedToCreateBuilding buildingName e) s1)))"

text \<open>
  \<^verbatim>\<open>createBuildings\<close> (lines 256 to 304).  The two JSON files are read and parsed at the
  start of this step and of each later step; the parsed arrays are arguments here, the
  same ones at every step.
\<close>

definition createBuildings ::
  "'w services \<Rightarrow> string \<Rightarrow> StudyRoomData list \<Rightarrow> RoomData list \<Rightarrow> 'w system \<Rightarrow>
   (js_value \<rightharpoonup> string) \<times> 'w system" where
  "createBuildings sv universityId studyRooms rooms st =
    fold (createBuilding sv universityId) (collectBuildingNames studyRooms rooms)
      (Map.empty, st)"

section \<open>Steps 3 and 4: study spots and lecture halls\<close>

text \<open>
  The body of the loop of \<^verbatim>\<open>migrateStudySpots\<close> (lines 319 to 348).  The test
  \<^verbatim>\<open>!buildingId\<close> holds when the lookup table has no entry and when the entry is the
  empty string; \<^verbatim>\<open>room.spaceType || null\<close> stores a missing and an empty space type
  as absent.
\<close>

definition migrateStudySpot ::
  "'w services \<Rightarrow> (js_value \<rightharpoonup> string) \<Rightarrow> StudyRoomData \<Rightarrow>
   (string \<rightharpoonup> string) \<times> 'w system \<Rightarrow> (string \<rightharpoonup> string) \<times> 'w system" where
  "migrateStudySpot sv buildingMap room acc =
    (case acc of (studySpotMap, st) \<Rightarrow>
      (let normalizedBuilding = normalizeBuildingName (sr_building room);
           notFound = (studySpotMap,
             pushError (FailedToCreateStudySpot (sr_name room)
                          (BuildingNotFound normalizedBuilding)) st)
       in
       case buildingMap normalizedBuilding of
         None \<Rightarrow> notFound
       | Some buildingId \<Rightarrow>
           if buildingId = [] then notFound
           else
             (let d = \<lparr>ss_name = sr_name room, ss_buildingId = buildingId,
                       ss_location = sr_location room,
                       ss_description = sr_description room,
                       ss_features = sr_features room,
                       ss_noiseLevel = sr_noiseLevel room,
                       ss_spaceType =
                         (if sr_spaceType room = Some [] then None else sr_spaceType room)\<rparr>
              in
              case perform (Create StudySpot) (studySpot_create sv d) st of
                (Inr studySpotId, s1) \<Rightarrow>
                  (studySpotMap(sr_id room \<mapsto> studySpotId),
                   s1\<lparr>studySpot_table := studySpot_table s1 @ [(studySpotId, d)],
                      stats_studySpots := stats_studySpots s1 + 1\<rparr>)
              | (Inl e, s1) \<Rightarrow>
                  (studySpotMap, pushError (FailedToCreateStudySpot (sr_name room) e) s1))))"

definition migrateStudySpots ::
  "'w services \<Rightarrow> (js_value \<rightharpoonup> string) \<Rightarrow> StudyRoomData list \<Rightarrow> 'w system \<Rightarrow>
   (string \<rightharpoonup> string) \<times> 'w system" where
  "migrateStudySpots sv buildingMap studyRooms st =
    fold (migrateStudySpot sv buildingMap) studyRooms (Map.empty, st)"

text \<open>The body of the loop of \<^verbatim>\<open>migrateLectureHalls\<close> (lines 366 to 394).\<close>

definition migrateLectureHall ::
  "'w services \<Rightarrow> (js_value \<rightharpoonup> string) \<Rightarrow> RoomData \<Rightarrow>
   (string \<rightharpoonup> string) \<times> 'w system \<Rightarrow> (string \<rightharpoonup> string) \<times> 'w system" where
  "migrateLectureHall sv buildingMap room acc =
    (case acc of (lectureHallMap, st) \<Rightarrow>
      (let normalizedBuilding = normalizeBuildingName (rd_building room);
           notFound = (lectureHallMap,
             pushError (FailedToCreateLectureHall (rd_room room)
                          (BuildingNotFound normalizedBuilding)) st)
       in
       case buildingMap normalizedBuilding of
         None \<Rightarrow> notFound
       | Some buildingId \<Rightarrow>
           if buildingId = [] then notFound
           else
             (let d = \<lparr>lh_buildingId = buildingId, lh_room = rd_room room,
                       hasAvInputs = (av_inputs (rd_information room) = Some ''yes''),
                       hasPc = (pc (rd_information room) = Some ''yes''),
                       hasWhiteboard = (whiteboard (rd_information room) = Some ''yes''),
                       hasProjector = (projector (rd_information room) = Some ''yes'')\<rparr>
              in
              case perform (Create LectureHall) (lectureHall_create sv d) st of
                (Inr lectureHallId, s1) \<Rightarrow>
                  (lectureHallMap(rd_id room \<mapsto> lectureHallId),
                   s1\<lparr>lectureHall_table := lectureHall_table s1 @ [(lectureHallId, d)],
                      stats_lectureHalls := stats_lectureHalls s1 + 1\<rparr>)
              | (Inl e, s1) \<Rightarrow>
                  (lectureHallMap,
                   pushError (FailedToCreateLectureHall (rd_room room) e) s1))))"

definition migrateLectureHalls ::
  "'w services \<Rightarrow> (js_value \<rightharpoonup> string) \<Rightarrow> RoomData list \<Rightarrow> 'w system \<Rightarrow>
   (string \<rightharpoonup> string) \<times> 'w system" where
  "migrateLectureHalls sv buildingMap rooms st =
    fold (migrateLectureHall sv buildingMap) rooms (Map.empty, st)"

section \<open>Image helpers\<close>

text \<open>\<^verbatim>\<open>downloadImage\<close> (lines 173 to 183).\<close>

definition downloadImage ::
  "'w services \<Rightarrow> string \<Rightarrow> 'w system \<Rightarrow> (err + buffer) \<times> 'w system" where
  "downloadImage sv imageUrl st =
    (case perform (HttpGet imageUrl) (axios_get sv imageUrl) st of
       (Inl e, s1) \<Rightarrow> (Inl (Wrapped (''Failed to download image from '' @ imageUrl) e), s1)
     | (Inr response, s1) \<Rightarrow> (Inr response, s1))"

text \<open>
  \<^verbatim>\<open>Math.round((metadata.width || 1000) * 0.3)\<close> is arithmetic on IEEE 754 binary64
  numbers.  The literal \<^verbatim>\<open>0.3\<close> denotes the double \<open>5404319552844595 / 2^54\<close>.  A
  width \<open>w\<close> below \<open>2^53\<close> is a double itself, and the product is the double nearest to
  the exact product \<open>w * 5404319552844595 / 2^54\<close>, ties to the even significand.  A
  positive double is written here as its numerator over \<open>2^54\<close>.
\<close>

fun bitlen :: "nat \<Rightarrow> nat" where
  "bitlen n = (if n = 0 then 0 else Suc (bitlen (n div 2)))"

declare bitlen.simps [simp del]

definition DOUBLE_0_3 :: nat where
  "DOUBLE_0_3 = 5404319552844595"

text \<open>
  Rounding the exact value \<open>n / 2^54\<close> to a significand of 53 bits: with \<open>s\<close> the
  number of bits beyond 53, the doubles around it are the multiples of \<open>2^s\<close>.
\<close>

definition round_to_53_bits :: "nat \<Rightarrow> nat" where
  "round_to_53_bits n =
    (let s = bitlen n - 53; q = n div 2 ^ s; r = n mod 2 ^ s in
     if 2 ^ s < 2 * r \<or> (2 * r = 2 ^ s \<and> odd q) then (q + 1) * 2 ^ s else q * 2 ^ s)"

definition times_0_3 :: "nat \<Rightarrow> nat" where
  "times_0_3 w = round_to_53_bits (w * DOUBLE_0_3)"

text \<open>
  \<^verbatim>\<open>Math.round\<close> answers with the integer nearest to its argument, the larger one of
  two that are equally near: \<open>\<lfloor>x + 1/2\<rfloor>\<close>, here for \<open>x = r / 2^54\<close>.
\<close>

definition Math_round :: "nat \<Rightarrow> nat" where
  "Math_round r = (2 * r + 2 ^ 54) div 2 ^ 55"

text \<open>
  \<^verbatim>\<open>Math.round((dimension || 1000) * 0.3)\<close>, for a dimension that the metadata gives
  (\<open>Some\<close>) or leaves out.
\<close>

definition newDimension :: "nat option \<Rightarrow> nat" where
  "newDimension dimension =
    Math_round (times_0_3
      (case dimension of None \<Rightarrow> 1000 | Some n \<Rightarrow> if n = 0 then 1000 else n))"

text \<open>\<^verbatim>\<open>optimizeImage\<close> (lines 188 to 203).\<close>

definition optimizeImage ::
  "'w services \<Rightarrow> buffer \<Rightarrow> 'w system \<Rightarrow> (err + buffer) \<times> 'w system" where
  "optimizeImage sv buffer st =
    (case perform SharpMetadata (sharp_metadata sv buffer) st of
       (Inl e, s1) \<Rightarrow> (Inl (Wrapped ''Failed to optimize image'' e), s1)
     | (Inr (width, height), s1) \<Rightarrow>
         (let newWidth = newDimension width; newHeight = newDimension height in
          case perform (SharpResizeWebp newWidth newHeight 85)
                 (sharp_resize_webp sv buffer newWidth newHeight 85) s1 of
            (Inl e, s2) \<Rightarrow> (Inl (Wrapped ''Failed to optimize image'' e), s2)
          | (Inr optimized, s2) \<Rightarrow> (Inr optimized, s2)))"

text \<open>
  \<^verbatim>\<open>uploadToSupabase\<close> (lines 208 to 233); \<^verbatim>\<open>upsert: true\<close> replaces an object that is
  already stored at the path.
\<close>

definition uploadToSupabase ::
  "'w services \<Rightarrow> buffer \<Rightarrow> string \<Rightarrow> 'w system \<Rightarrow> (err + string) \<times> 'w system" where
  "uploadToSupabase sv buffer storagePath st =
    (case perform (Upload storagePath) (storage_upload sv storagePath buffer) st of
       (Some e, s1) \<Rightarrow>
         (Inl (Wrapped ''Failed to upload to Supabase''
                 (Wrapped ''Supabase upload error'' e)), s1)
     | (None, s1) \<Rightarrow>
         (Inr (storage_getPublicUrl sv storagePath),
          s1\<lparr>bucket_objects :=
               filter (\<lambda>ob. fst ob \<noteq> storagePath) (bucket_objects s1)
                 @ [(storagePath, buffer)]\<rparr>))"

section \<open>Step 5: photos\<close>

text \<open>The decimal digits of a loop index, as a template literal prints it.\<close>

function decimal :: "nat \<Rightarrow> string" where
  "decimal n =
    (if n < 10 then [''0123456789'' ! n]
     else decimal (n div 10) @ [''0123456789'' ! (n mod 10)])"
  by pat_completeness auto
termination
  by (relation "measure (\<lambda>n. n)") auto

declare decimal.simps [simp del]

text \<open>
  \<^verbatim>\<open>processPhotos\<close> holds the same loop twice, once for study spots (lines 413 to 449)
  and once for lecture halls (lines 455 to 491).  The two copies differ in the folder
  of the storage path, in the field of the photo row that refers to the owner, and in
  the error template; \<open>owner\<close> selects the copy.
\<close>

datatype owner = StudySpotOwner | LectureHallOwner

fun photoFolder :: "owner \<Rightarrow> string" where
  "photoFolder StudySpotOwner = ''study-spots''"
| "photoFolder LectureHallOwner = ''lecture-halls''"

definition storagePathOf :: "owner \<Rightarrow> string \<Rightarrow> string \<Rightarrow> nat \<Rightarrow> string" where
  "storagePathOf ow universityId entityId i =
    ''universities/'' @ universityId @ ''/photos/'' @ photoFolder ow @ ''/''
      @ entityId @ ''/'' @ decimal i @ ''.webp''"

fun photoError :: "owner \<Rightarrow> string \<Rightarrow> err \<Rightarrow> error_message" where
  "photoError StudySpotOwner name e = FailedToProcessPhotoForStudySpot name e"
| "photoError LectureHallOwner name e = FailedToProcessPhotoForLectureHall name e"

fun photoData :: "owner \<Rightarrow> string \<Rightarrow> string \<Rightarrow> string \<Rightarrow> photo_data" where
  "photoData StudySpotOwner storagePath publicUrl entityId =
    \<lparr>ph_storagePath = storagePath, ph_url = publicUrl,
     ph_studySpotId = Some entityId, ph_lectureHallId = None\<rparr>"
| "photoData LectureHallOwner storagePath publicUrl entityId =
    \<lparr>ph_storagePath = storagePath, ph_url = publicUrl,
     ph_studySpotId = None, ph_lectureHallId = Some entityId\<rparr>"

text \<open>
  The \<^verbatim>\<open>try\<close> block of the inner loop: download, optimise, upload, insert the photo
  row.  It answers with the identifier of the new row, or with the error thrown.
\<close>

definition tryProcessImage ::
  "'w services \<Rightarrow> owner \<Rightarrow> string \<Rightarrow> string \<Rightarrow> nat \<Rightarrow> string \<Rightarrow>
   'w system \<Rightarrow> (err + string) \<times> 'w system" where
  "tryProcessImage sv ow universityId entityId i imageUrl st =
    (case downloadImage sv imageUrl st of
       (Inl e, s1) \<Rightarrow> (Inl e, s1)
     | (Inr imageBuffer, s1) \<Rightarrow>
     (case optimizeImage sv imageBuffer s1 of
       (Inl e, s2) \<Rightarrow> (Inl e, s2)
     | (Inr optimizedBuffer, s2) \<Rightarrow>
     (let storagePath = storagePathOf ow universityId entityId i in
      case uploadToSupabase sv optimizedBuffer storagePath s2 of
       (Inl e, s3) \<Rightarrow> (Inl e, s3)
     | (Inr publicUrl, s3) \<Rightarrow>
     (let d = photoData ow storagePath publicUrl entityId in
      case perform (Create Photo) (photo_create sv d) s3 of
       (Inl e, s4) \<Rightarrow> (Inl e, s4)
     | (Inr photoId, s4) \<Rightarrow>
         (Inr photoId,
          s4\<lparr>photo_table := photo_table s4 @ [(photoId, d)],
             stats_photos := stats_photos s4 + 1\<rparr>)))))"

text \<open>The body of the inner loop: the \<^verbatim>\<open>try\<close> block and its \<^verbatim>\<open>catch\<close>.\<close>

definition processImage ::
  "'w services \<Rightarrow> owner \<Rightarrow> string \<Rightarrow> string \<Rightarrow> string \<Rightarrow> nat \<Rightarrow> string \<Rightarrow>
   'w system \<Rightarrow> 'w system" where
  "processImage sv ow universityId entityId name i imageUrl st =
    (case tryProcessImage sv ow universityId entityId i imageUrl st of
       (Inl e, s) \<Rightarrow> pushError (photoError ow name e) s
     | (Inr photoId, s) \<Rightarrow> s)"

text \<open>The inner loop \<^verbatim>\<open>for (let i = 0; i < images.length; i++)\<close>, from index \<open>i\<close> on.\<close>

function processImages ::
  "'w services \<Rightarrow> owner \<Rightarrow> string \<Rightarrow> string \<Rightarrow> string \<Rightarrow> string list \<Rightarrow> nat \<Rightarrow>
   'w system \<Rightarrow> 'w system" where
  "processImages sv ow universityId entityId name images i st =
    (if i < length images
     then processImages sv ow universityId entityId name images (Suc i)
            (processImage sv ow universityId entityId name i (images ! i) st)
     else st)"
  by pat_completeness auto
termination
  by (relation "measure (\<lambda>(sv, ow, universityId, entityId, name, images, i, st).
        length images - i)") auto

declare processImages.simps [simp del]

text \<open>
  The body of an outer loop: a record without images and a record whose identifier has
  no (truthy) entry in the lookup table are passed over with \<^verbatim>\<open>continue\<close>.
\<close>

definition processRecordPhotos ::
  "'w services \<Rightarrow> owner \<Rightarrow> string \<Rightarrow> (string \<rightharpoonup> string) \<Rightarrow> string \<Rightarrow> string \<Rightarrow>
   string list option \<Rightarrow> 'w system \<Rightarrow> 'w system" where
  "processRecordPhotos sv ow universityId entityMap recordId name images st =
    (case images of
       None \<Rightarrow> st
     | Some urls \<Rightarrow>
         if urls = [] then st
         else (case entityMap recordId of
                 None \<Rightarrow> st
               | Some entityId \<Rightarrow>
                   if entityId = [] then st
                   else processImages sv ow universityId entityId name urls 0 st))"

text \<open>\<^verbatim>\<open>processPhotos\<close> (lines 402 to 492).\<close>

definition processPhotos ::
  "'w services \<Rightarrow> string \<Rightarrow> (string \<rightharpoonup> string) \<Rightarrow> (string \<rightharpoonup> string) \<Rightarrow>
   StudyRoomData list \<Rightarrow> RoomData list \<Rightarrow> 'w system \<Rightarrow> 'w system" where
  "processPhotos sv universityId studySpotMap lectureHallMap studyRooms rooms st =
    fold (\<lambda>room. processRecordPhotos sv LectureHallOwner universityId lectureHallMap
                   (rd_id room) (rd_room room) (rd_photos room)) rooms
      (fold (\<lambda>room. processRecordPhotos sv StudySpotOwner universityId studySpotMap
                      (sr_id room) (sr_name room) (sr_imageURL room)) studyRooms st)"

section \<open>The whole run\<close>

text \<open>
  \<^verbatim>\<open>migrate\<close> (lines 497 to 551): an error of the setup or of the university ends the
  run; the later steps collect their errors in \<^verbatim>\<open>stats.errors\<close>.
\<close>

definition migrate ::
  "'w services \<Rightarrow> StudyRoomData list \<Rightarrow> RoomData list \<Rightarrow> 'w system \<Rightarrow>
   err option \<times> 'w system" where
  "migrate sv studyRooms rooms st =
    (case clearExistingData sv st of
       (Some e, s0) \<Rightarrow> (Some e, s0)
     | (None, s0) \<Rightarrow>
    (case ensureStorageBucket sv s0 of
       (Some e, s1) \<Rightarrow> (Some e, s1)
     | (None, s1) \<Rightarrow>
    (case createUniversity sv s1 of
       (Inl e, s2) \<Rightarrow> (Some e, s2)
     | (Inr universityId, s2) \<Rightarrow>
    (case createBuildings sv universityId studyRooms rooms s2 of
       (buildingMap, s3) \<Rightarrow>
    (case migrateStudySpots sv buildingMap studyRooms s3 of
       (studySpotMap, s4) \<Rightarrow>
    (case migrateLectureHalls sv buildingMap rooms s4 of
       (lectureHallMap, s5) \<Rightarrow>
         (None, processPhotos sv universityId studySpotMap lectureHallMap
                  studyRooms rooms s5)))))))"

text \<open>The step of \<^verbatim>\<open>migrate\<close> that makes a call.\<close>

fun step_of :: "call \<Rightarrow> nat" where
  "step_of (DeleteMany t) = 0"
| "step_of ListBuckets = 1"
| "step_of (CreateBucket b) = 1"
| "step_of (Create University) = 2"
| "step_of (Create Building) = 3"
| "step_of (Create StudySpot) = 4"
| "step_of (Create LectureHall) = 5"
| "step_of (Create Photo) = 6"
| "step_of (HttpGet u) = 6"
| "step_of SharpMetadata = 6"
| "step_of (SharpResizeWebp w h q) = 6"
| "step_of (Upload p) = 6"

section \<open>The exporter\<close>

text \<open>
  \<^verbatim>\<open>src/services/fireStoreQueries.ts\<close>.  The document store, the file system and
  \<^verbatim>\<open>path.join\<close> are parameters.  A flattened document \<^verbatim>\<open>{id: doc.id, ...doc.data()}\<close>
  is kept as the pair of \<^verbatim>\<open>doc.id\<close> and \<^verbatim>\<open>doc.data()\<close>; the text that
  \<^verbatim>\<open>JSON.stringify\<close> prints for one such element of an array is the parameter
  \<open>render_document\<close>.
\<close>

record 'f export_env =
  firestore_get :: "string \<Rightarrow> err + (string \<times> 'f) list"
  render_document :: "string \<times> 'f \<Rightarrow> string"
  path_join :: "string \<Rightarrow> string \<Rightarrow> string"
  fs_mkdirSync :: "string \<Rightarrow> err option"
  fs_writeFileSync :: "string \<Rightarrow> string \<Rightarrow> err option"

record filesystem =
  directories :: "string list"
  files :: "string \<rightharpoonup> string"

text \<open>\<^verbatim>\<open>getCollectionData\<close> (lines 28 to 45): the error of the store is thrown again.\<close>

definition getCollectionData ::
  "'f export_env \<Rightarrow> string \<Rightarrow> err + (string \<times> 'f) list" where
  "getCollectionData env collectionName =
    (case firestore_get env collectionName of
       Inl e \<Rightarrow> Inl e
     | Inr docs \<Rightarrow> Inr (map (\<lambda>doc. (fst doc, snd doc)) docs))"

text \<open>
  \<^verbatim>\<open>JSON.stringify(data, null, 2)\<close> for an array: the empty array prints as \<^verbatim>\<open>[]\<close>, any
  other one prints an element per line, indented by two blanks and separated by commas.
\<close>

fun join_elements :: "string list \<Rightarrow> string" where
  "join_elements [] = []"
| "join_elements [x] = x"
| "join_elements (x # y # ys) = x @ '','' @ [CHR 0x0A] @ ''  '' @ join_elements (y # ys)"

definition JSON_stringify_array :: "('d \<Rightarrow> string) \<Rightarrow> 'd list \<Rightarrow> string" where
  "JSON_stringify_array render data =
    (if data = [] then ''[]''
     else ''['' @ [CHR 0x0A] @ ''  '' @ join_elements (map render data) @ [CHR 0x0A] @ '']'')"

text \<open>\<^verbatim>\<open>saveToJson\<close> (lines 83 to 101).\<close>

definition saveToJson ::
  "'f export_env \<Rightarrow> (string \<times> 'f) list \<Rightarrow> string \<Rightarrow> string \<Rightarrow> filesystem \<Rightarrow>
   err option \<times> filesystem" where
  "saveToJson env data filename outputDir fs =
    (case (if outputDir \<in> set (directories fs) then (None, fs)
           else (case fs_mkdirSync env outputDir of
                   Some e \<Rightarrow> (Some e, fs)
                 | None \<Rightarrow> (None, fs\<lparr>directories := outputDir # directories fs\<rparr>))) of
       (Some e, fs1) \<Rightarrow> (Some e, fs1)
     | (None, fs1) \<Rightarrow>
         (let filePath = path_join env outputDir filename;
              content = JSON_stringify_array (render_document env) data
          in case fs_writeFileSync env filePath content of
               Some e \<Rightarrow> (Some e, fs1)
             | None \<Rightarrow> (None, fs1\<lparr>files := (files fs1)(filePath \<mapsto> content)\<rparr>)))"

text \<open>\<^verbatim>\<open>exportCollectionToJson\<close> (lines 106 to 117).\<close>

definition exportCollectionToJson ::
  "'f export_env \<Rightarrow> string \<Rightarrow> string \<Rightarrow> filesystem \<Rightarrow> err option \<times> filesystem" where
  "exportCollectionToJson env collectionName outputDir fs =
    (case getCollectionData env collectionName of
       Inl e \<Rightarrow> (Some e, fs)
     | Inr data \<Rightarrow> saveToJson env data (collectionName @ ''.json'') outputDir fs)"

section \<open>Vocabulary of the proofs\<close>


text \<open>
  From \<open>st\<close> to \<open>s\<close> the log of calls only grows, by calls of the steps \<open>lo\<close> to \<open>hi\<close>
  of \<^verbatim>\<open>migrate\<close>, in the order of the steps.
\<close>

definition runs_steps :: "nat \<Rightarrow> nat \<Rightarrow> 'w system \<Rightarrow> 'w system \<Rightarrow> bool" where
  "runs_steps lo hi st s \<longleftrightarrow>
    (\<exists>cs. calls s = calls st @ cs \<and> sorted (map step_of cs) \<and>
       (\<forall>c \<in> set cs. lo \<le> step_of c \<and> step_of c \<le> hi))"


section \<open>A sample environment\<close>

text \<open>
  Services whose world is the number of calls served so far.  Every call succeeds,
  except the download of one address; a new row gets an identifier made from its data.
\<close>

definition sample_services :: "nat services" where
  "sample_services =
    \<lparr>prisma_deleteMany = (\<lambda>t w. (None, Suc w)),
     storage_listBuckets = (\<lambda>w. (Inr [], Suc w)),
     storage_createBucket = (\<lambda>b w. (None, Suc w)),
     university_create = (\<lambda>d w. (Inr ''u1'', Suc w)),
     building_create = (\<lambda>d w. (Inr (case b_name d of JString n \<Rightarrow> ''b:'' @ n | _ \<Rightarrow> ''b''),
                                  Suc w)),
     studySpot_create = (\<lambda>d w. (Inr (''s:'' @ ss_name d), Suc w)),
     lectureHall_create = (\<lambda>d w. (Inr (''h:'' @ lh_room d), Suc w)),
     photo_create = (\<lambda>d w. (Inr (''p:'' @ ph_storagePath d), Suc w)),
     axios_get = (\<lambda>u w. (if u = ''http://img/broken'' then Inl (ExternalError ''timeout'')
                            else Inr u, Suc w)),
     sharp_metadata = (\<lambda>b w. (Inr (Some 800, Some 600), Suc w)),
     sharp_resize_webp = (\<lambda>b nw nh q w. (Inr b, Suc w)),
     storage_upload = (\<lambda>p b w. (None, Suc w)),
     storage_getPublicUrl = (\<lambda>p. ''http://cdn/'' @ p)\<rparr>"

definition sample_start :: "nat system" where
  "sample_start =
    \<lparr>world = 0, calls = [], photo_table = [], studySpot_table = [],
     lectureHall_table = [], building_table = [], university_table = [],
     bucket_objects = [], stats_university = 0, stats_buildings = 0,
     stats_studySpots = 0, stats_lectureHalls = 0, stats_photos = 0,
     stats_errors = []\<rparr>"

definition sample_studyRoom :: "string \<Rightarrow> string \<Rightarrow> string list \<Rightarrow> StudyRoomData" where
  "sample_studyRoom ident building images =
    \<lparr>sr_id = ident, sr_name = ''Room '' @ ident, sr_building = building,
     sr_spaceType = None, sr_location = ''Floor 1'', sr_imageURL = Some images,
     sr_features = [], sr_noiseLevel = ''quiet'', sr_capacity = None,
     sr_description = []\<rparr>"

definition sample_room ::
  "string \<Rightarrow> string \<Rightarrow> string list \<Rightarrow> Information \<Rightarrow> RoomData" where
  "sample_room ident building images information =
    \<lparr>rd_id = ident, rd_building = building, rd_photos = Some images,
     rd_room = ''Hall '' @ ident, rd_information = information\<rparr>"

definition sample_information :: Information where
  "sample_information =
    \<lparr>av_inputs = Some ''yes'', pc = Some ''no'', whiteboard = Some ''yes'',
     projector = Some ''no''\<rparr>"


definition sample_export_env :: "unit export_env" where
  "sample_export_env =
    \<lparr>firestore_get = (\<lambda>c. if c = ''feedback'' then Inr [] else Inr [(''doc1'', ())]),
     render_document = (\<lambda>d. ''{}''),
     path_join = (\<lambda>d f. d @ ''/'' @ f),
     fs_mkdirSync = (\<lambda>d. None),
     fs_writeFileSync = (\<lambda>p c. None)\<rparr>"

section \<open>Properties of the normaliser\<close>

lemma buildingNameMap_values_nonempty:
  "map_of buildingNameMap k = Some v \<Longrightarrow> v \<noteq> []"
  by (auto simp: buildingNameMap_def split: if_splits)

lemma normalizeBuildingName_mapped:
  "map_of buildingNameMap name = Some v \<Longrightarrow> normalizeBuildingName name = JString v"
  using buildingNameMap_values_nonempty [of name v]
  by (simp add: normalizeBuildingName_def js_get_def)

lemma normalizeBuildingName_unmapped:
  "map_of buildingNameMap name = None \<Longrightarrow> map_of Object_prototype name = None \<Longrightarrow>
   normalizeBuildingName name = JString name"
  by (simp add: normalizeBuildingName_def js_get_def)

text \<open>
  Claim C1.  The normaliser returns the mapped canonical string for every key of the
  table, and is meant to return every other string unchanged.  The second half fails
  on the code for the strings that name a property of \<^verbatim>\<open>Object.prototype\<close>: the string
  \<^verbatim>\<open>constructor\<close> is not a key of the table, the read \<^verbatim>\<open>buildingNameMap["constructor"]\<close>
  answers with the inherited function \<^verbatim>\<open>Object\<close>, which is truthy, and that function is
  returned in place of the input string.
\<close>

theorem normalizeBuildingName_constructor:
  "map_of buildingNameMap ''constructor'' = None \<and>
   normalizeBuildingName ''constructor'' = JFunction ''Object'' \<and>
   normalizeBuildingName ''constructor'' \<noteq> JString ''constructor''"
  by (simp add: normalizeBuildingName_def js_get_def buildingNameMap_def Object_prototype_def)

section \<open>Building creation\<close>

lemma set_set_add: "set (set_add x xs) = insert x (set xs)"
  by (auto simp: set_add_def)

lemma distinct_set_add: "distinct xs \<Longrightarrow> distinct (set_add x xs)"
  by (simp add: set_add_def)

lemma fold_addBuildingName:
  "set (fold (\<lambda>room. addBuildingName (f room)) rs names) =
     set names \<union> normalizeBuildingName ` {b \<in> f ` set rs. b \<noteq> []}"
  by (induction rs arbitrary: names) (auto simp: addBuildingName_def set_set_add)

lemma distinct_fold_addBuildingName:
  "distinct names \<Longrightarrow> distinct (fold (\<lambda>room. addBuildingName (f room)) rs names)"
  by (induction rs arbitrary: names) (auto simp: addBuildingName_def distinct_set_add)

lemma set_collectBuildingNames:
  "set (collectBuildingNames studyRooms rooms) =
     normalizeBuildingName ` ({b \<in> sr_building ` set studyRooms. b \<noteq> []} \<union>
                              {b \<in> rd_building ` set rooms. b \<noteq> []})"
  by (simp add: collectBuildingNames_def fold_addBuildingName image_Un Un_commute)

lemma distinct_collectBuildingNames: "distinct (collectBuildingNames studyRooms rooms)"
  by (simp add: collectBuildingNames_def distinct_fold_addBuildingName)

lemma createBuilding_step:
  assumes "createBuilding sv uid n (bm, st) = (bm', st')"
  shows "(\<exists>i. building_table st' =
             building_table st @ [(i, \<lparr>b_name = n, b_universityId = uid\<rparr>)] \<and>
           bm' = bm(n \<mapsto> i) \<and> stats_errors st' = stats_errors st) \<or>
         (\<exists>e. stats_errors st' = stats_errors st @ [e])"
  using assms
  by (auto simp: createBuilding_def perform_def pushError_def Let_def
      split: prod.splits sum.splits)

text \<open>
  The loop over the building names only appends to the error list; when it appends
  nothing, it has created one row for each name, in order.
\<close>

lemma fold_createBuilding_no_error:
  assumes "fold (createBuilding sv uid) names (bm, st) = (bm', st')"
  shows "\<exists>new. stats_errors st' = stats_errors st @ new \<and>
     (new = [] \<longrightarrow>
        (\<exists>created. building_table st' = building_table st @ created \<and>
           map (\<lambda>row. b_name (snd row)) created = names \<and> dom bm' = dom bm \<union> set names))"
  using assms
proof (induction names arbitrary: bm st)
  case Nil
  then show ?case by simp
next
  case (Cons n names)
  obtain bm1 s1 where step: "createBuilding sv uid n (bm, st) = (bm1, s1)"
    by (cases "createBuilding sv uid n (bm, st)")
  from Cons.prems step have "fold (createBuilding sv uid) names (bm1, s1) = (bm', st')"
    by simp
  from Cons.IH [OF this] obtain new where
    new: "stats_errors st' = stats_errors s1 @ new"
    and ok: "new = [] \<Longrightarrow> \<exists>created. building_table st' = building_table s1 @ created \<and>
           map (\<lambda>row. b_name (snd row)) created = names \<and> dom bm' = dom bm1 \<union> set names"
    by blast
  from createBuilding_step [OF step] show ?case
  proof
    assume "\<exists>i. building_table s1 =
             building_table st @ [(i, \<lparr>b_name = n, b_universityId = uid\<rparr>)] \<and>
           bm1 = bm(n \<mapsto> i) \<and> stats_errors s1 = stats_errors st"
    then obtain i where first: "building_table s1 =
             building_table st @ [(i, \<lparr>b_name = n, b_universityId = uid\<rparr>)]"
      "bm1 = bm(n \<mapsto> i)" "stats_errors s1 = stats_errors st" by blast
    show ?thesis
    proof (intro exI [of _ new] conjI impI)
      show "stats_errors st' = stats_errors st @ new" using new first(3) by simp
      assume "new = []"
      from ok [OF this] obtain created where
        "building_table st' = building_table s1 @ created"
        "map (\<lambda>row. b_name (snd row)) created = names" "dom bm' = dom bm1 \<union> set names"
        by blast
      with first show "\<exists>created. building_table st' = building_table st @ created \<and>
           map (\<lambda>row. b_name (snd row)) created = n # names \<and>
           dom bm' = dom bm \<union> set (n # names)"
        by (intro exI [of _ "(i, \<lparr>b_name = n, b_universityId = uid\<rparr>) # created"]) auto
    qed
  next
    assume "\<exists>e. stats_errors s1 = stats_errors st @ [e]"
    then obtain e where "stats_errors s1 = stats_errors st @ [e]" by blast
    with new show ?thesis
      by (intro exI [of _ "e # new"]) simp
  qed
qed

text \<open>
  Claim C2, as amended.  When \<^verbatim>\<open>createBuildings\<close> records no error (no creation of a
  building has failed), the building rows that it adds carry pairwise distinct names,
  and the set of these names is the set of normalised names of the records, of both
  datasets, whose \<^verbatim>\<open>building\<close> field is not the empty string; the lookup table has
  exactly these names as keys.
\<close>

theorem createBuildings_names:
  assumes "createBuildings sv universityId studyRooms rooms st = (buildingMap, st')"
    and "stats_errors st' = stats_errors st"
  shows "\<exists>created. building_table st' = building_table st @ created \<and>
     distinct (map (\<lambda>row. b_name (snd row)) created) \<and>
     set (map (\<lambda>row. b_name (snd row)) created) =
       normalizeBuildingName ` ({b \<in> sr_building ` set studyRooms. b \<noteq> []} \<union>
                                {b \<in> rd_building ` set rooms. b \<noteq> []}) \<and>
     dom buildingMap = set (map (\<lambda>row. b_name (snd row)) created)"
proof -
  from assms(1) have "fold (createBuilding sv universityId)
      (collectBuildingNames studyRooms rooms) (Map.empty, st) = (buildingMap, st')"
    by (simp add: createBuildings_def)
  from fold_createBuilding_no_error [OF this] assms(2) obtain created where
    c: "building_table st' = building_table st @ created"
      "map (\<lambda>row. b_name (snd row)) created = collectBuildingNames studyRooms rooms"
      "dom buildingMap =
         dom (Map.empty :: js_value \<rightharpoonup> string) \<union> set (collectBuildingNames studyRooms rooms)"
    by auto
  show ?thesis
    using c distinct_collectBuildingNames [of studyRooms rooms]
      set_collectBuildingNames [of studyRooms rooms]
    by (intro exI [of _ created]) simp
qed

lemma sample_buildings_run:
  "createBuildings sample_services ''u1''
        [sample_studyRoom ''r1'' ''Peters'' [], sample_studyRoom ''r2'' [] []]
        [sample_room ''h1'' ''Peters Building'' [] sample_information,
         sample_room ''h2'' ''Arts'' [] sample_information]
        sample_start =
   ([JString ''Peters Building'' \<mapsto> ''b:Peters Building'',
     JString ''Arts Building'' \<mapsto> ''b:Arts Building''],
    sample_start
      \<lparr>world := 2, calls := [Create Building, Create Building],
       building_table :=
         [(''b:Peters Building'',
           \<lparr>b_name = JString ''Peters Building'', b_universityId = ''u1''\<rparr>),
          (''b:Arts Building'',
           \<lparr>b_name = JString ''Arts Building'', b_universityId = ''u1''\<rparr>)],
       stats_buildings := 2\<rparr>)"
  by (simp add: createBuildings_def collectBuildingNames_def addBuildingName_def set_add_def
      createBuilding_def perform_def Let_def normalizeBuildingName_def js_get_def
      buildingNameMap_def sample_studyRoom_def sample_room_def sample_services_def
      sample_start_def)

text \<open>
  The theorem at a sample input: two study rooms (one without a building) and two
  rooms, in the sample environment, where the store accepts every row.  The names
  created are \<^verbatim>\<open>Peters Building\<close> and \<^verbatim>\<open>Arts Building\<close>.
\<close>

theorem createBuildings_names_witness:
  "(\<exists>created.
     building_table (snd (createBuildings sample_services ''u1''
        [sample_studyRoom ''r1'' ''Peters'' [], sample_studyRoom ''r2'' [] []]
        [sample_room ''h1'' ''Peters Building'' [] sample_information,
         sample_room ''h2'' ''Arts'' [] sample_information]
        sample_start)) = building_table sample_start @ created \<and>
     distinct (map (\<lambda>row. b_name (snd row)) created) \<and>
     set (map (\<lambda>row. b_name (snd row)) created) =
       normalizeBuildingName `
         ({b \<in> sr_building `
             set [sample_studyRoom ''r1'' ''Peters'' [], sample_studyRoom ''r2'' [] []].
           b \<noteq> []} \<union>
          {b \<in> rd_building `
             set [sample_room ''h1'' ''Peters Building'' [] sample_information,
                  sample_room ''h2'' ''Arts'' [] sample_information].
           b \<noteq> []}) \<and>
     dom (fst (createBuildings sample_services ''u1''
        [sample_studyRoom ''r1'' ''Peters'' [], sample_studyRoom ''r2'' [] []]
        [sample_room ''h1'' ''Peters Building'' [] sample_information,
         sample_room ''h2'' ''Arts'' [] sample_information]
        sample_start)) = set (map (\<lambda>row. b_name (snd row)) created)) \<and>
   map (\<lambda>row. b_name (snd row))
     (building_table (snd (createBuildings sample_services ''u1''
        [sample_studyRoom ''r1'' ''Peters'' [], sample_studyRoom ''r2'' [] []]
        [sample_room ''h1'' ''Peters Building'' [] sample_information,
         sample_room ''h2'' ''Arts'' [] sample_information]
        sample_start)))
     = [JString ''Peters Building'', JString ''Arts Building'']"
proof
  have no_error: "stats_errors (snd (createBuildings sample_services ''u1''
        [sample_studyRoom ''r1'' ''Peters'' [], sample_studyRoom ''r2'' [] []]
        [sample_room ''h1'' ''Peters Building'' [] sample_information,
         sample_room ''h2'' ''Arts'' [] sample_information]
        sample_start)) = stats_errors sample_start"
    by (simp add: sample_buildings_run)
  show "\<exists>created.
     building_table (snd (createBuildings sample_services ''u1''
        [sample_studyRoom ''r1'' ''Peters'' [], sample_studyRoom ''r2'' [] []]
        [sample_room ''h1'' ''Peters Building'' [] sample_information,
         sample_room ''h2'' ''Arts'' [] sample_information]
        sample_start)) = building_table sample_start @ created \<and>
     distinct (map (\<lambda>row. b_name (snd row)) created) \<and>
     set (map (\<lambda>row. b_name (snd row)) created) =
       normalizeBuildingName `
         ({b \<in> sr_building `
             set [sample_studyRoom ''r1'' ''Peters'' [], sample_studyRoom ''r2'' [] []].
           b \<noteq> []} \<union>
          {b \<in> rd_building `
             set [sample_room ''h1'' ''Peters Building'' [] sample_information,
                  sample_room ''h2'' ''Arts'' [] sample_information].
           b \<noteq> []}) \<and>
     dom (fst (createBuildings sample_services ''u1''
        [sample_studyRoom ''r1'' ''Peters'' [], sample_studyRoom ''r2'' [] []]
        [sample_room ''h1'' ''Peters Building'' [] sample_information,
         sample_room ''h2'' ''Arts'' [] sample_information]
        sample_start)) = set (map (\<lambda>row. b_name (snd row)) created)"
    by (rule createBuildings_names [OF surjective_pairing no_error])
  show "map (\<lambda>row. b_name (snd row))
     (building_table (snd (createBuildings sample_services ''u1''
        [sample_studyRoom ''r1'' ''Peters'' [], sample_studyRoom ''r2'' [] []]
        [sample_room ''h1'' ''Peters Building'' [] sample_information,
         sample_room ''h2'' ''Arts'' [] sample_information]
        sample_start)))
     = [JString ''Peters Building'', JString ''Arts Building'']"
    by (simp add: sample_buildings_run)
qed

text \<open>
  Claim C2 as stated fails for a record whose \<^verbatim>\<open>building\<close> is the empty string: the
  guard \<^verbatim>\<open>if (room.building)\<close> passes it over, so no building is created for its
  normalised name (the empty string itself), although no creation fails.
\<close>

theorem createBuildings_empty_building_counterexample:
  "stats_errors (snd (createBuildings sample_services ''u1''
      [sample_studyRoom ''r1'' [] []] [] sample_start)) = [] \<and>
   set (map (\<lambda>row. b_name (snd row))
     (building_table (snd (createBuildings sample_services ''u1''
        [sample_studyRoom ''r1'' [] []] [] sample_start))))
   \<noteq> normalizeBuildingName ` (sr_building ` set [sample_studyRoom ''r1'' [] []]
        \<union> rd_building ` set [])"
  by (simp add: createBuildings_def collectBuildingNames_def addBuildingName_def
      sample_studyRoom_def sample_start_def)

section \<open>Lecture-hall flags\<close>

lemma migrateLectureHall_table:
  "migrateLectureHall sv bm room (m, st) = (m', st') \<Longrightarrow>
   lectureHall_table st' = lectureHall_table st \<or>
   (\<exists>row. lectureHall_table st' = lectureHall_table st @ [row] \<and>
      lh_room (snd row) = rd_room room \<and>
      hasAvInputs (snd row) = (av_inputs (rd_information room) = Some ''yes'') \<and>
      hasPc (snd row) = (pc (rd_information room) = Some ''yes'') \<and>
      hasWhiteboard (snd row) = (whiteboard (rd_information room) = Some ''yes'') \<and>
      hasProjector (snd row) = (projector (rd_information room) = Some ''yes''))"
  by (auto simp: migrateLectureHall_def perform_def pushError_def Let_def
      split: option.splits if_splits prod.splits sum.splits)

lemma migrateLectureHall_fold:
  "fold (migrateLectureHall sv bm) rooms (m, st) = (m', st') \<Longrightarrow>
   \<exists>created migrated. lectureHall_table st' = lectureHall_table st @ created \<and>
     subseq migrated rooms \<and>
     list_all2 (\<lambda>row room.
        lh_room (snd row) = rd_room room \<and>
        hasAvInputs (snd row) = (av_inputs (rd_information room) = Some ''yes'') \<and>
        hasPc (snd row) = (pc (rd_information room) = Some ''yes'') \<and>
        hasWhiteboard (snd row) = (whiteboard (rd_information room) = Some ''yes'') \<and>
        hasProjector (snd row) = (projector (rd_information room) = Some ''yes''))
      created migrated"
  (is "_ \<Longrightarrow> \<exists>created migrated. _ \<and> _ \<and> list_all2 ?match created migrated")
proof (induction rooms arbitrary: m st)
  case Nil
  then show ?case by auto
next
  case (Cons room rooms)
  obtain m1 s1 where step: "migrateLectureHall sv bm room (m, st) = (m1, s1)"
    by (cases "migrateLectureHall sv bm room (m, st)")
  with Cons.prems have rest: "fold (migrateLectureHall sv bm) rooms (m1, s1) = (m', st')"
    by simp
  from Cons.IH [OF rest] obtain created migrated where
    later: "lectureHall_table st' = lectureHall_table s1 @ created"
      "subseq migrated rooms" "list_all2 ?match created migrated"
    by blast
  from migrateLectureHall_table [OF step] show ?case
  proof
    assume "lectureHall_table s1 = lectureHall_table st"
    with later show ?thesis
      by (intro exI [of _ created] exI [of _ migrated]) auto
  next
    assume "\<exists>row. lectureHall_table s1 = lectureHall_table st @ [row] \<and> ?match row room"
    then obtain row where "lectureHall_table s1 = lectureHall_table st @ [row]"
      "?match row room" by blast
    with later show ?thesis
      by (intro exI [of _ "row # created"] exI [of _ "room # migrated"]) auto
  qed
qed

text \<open>
  Claim C3.  The lecture-hall rows that \<^verbatim>\<open>migrateLectureHalls\<close> adds come, in order, from
  a subsequence of the source records (those whose creation succeeded), and in each row
  each of the four flags is true exactly when the corresponding source field is the
  string \<^verbatim>\<open>yes\<close>; a missing field (\<open>None\<close>) and every other string give false.
\<close>

theorem lectureHall_flags_exact_yes:
  assumes "migrateLectureHalls sv buildingMap rooms st = (lectureHallMap, st')"
  shows "\<exists>created migrated. lectureHall_table st' = lectureHall_table st @ created \<and>
     subseq migrated rooms \<and>
     list_all2 (\<lambda>row room.
        lh_room (snd row) = rd_room room \<and>
        hasAvInputs (snd row) = (av_inputs (rd_information room) = Some ''yes'') \<and>
        hasPc (snd row) = (pc (rd_information room) = Some ''yes'') \<and>
        hasWhiteboard (snd row) = (whiteboard (rd_information room) = Some ''yes'') \<and>
        hasProjector (snd row) = (projector (rd_information room) = Some ''yes''))
      created migrated"
  using assms unfolding migrateLectureHalls_def by (rule migrateLectureHall_fold)

lemma decimal_digit: "n < 10 \<Longrightarrow> decimal n = [''0123456789'' ! n]"
  by (simp add: decimal.simps)

text \<open>
  The theorem at a sample input, and the rows of that run: the record of the
  specification's example, and a record with \<^verbatim>\<open>av_inputs\<close> in capitals and the other
  three fields missing.
\<close>

theorem lectureHall_flags_exact_yes_witness:
  "(\<exists>created migrated.
     lectureHall_table (snd (migrateLectureHalls sample_services
        [JString ''Arts Building'' \<mapsto> ''b1'']
        [sample_room ''h1'' ''Arts'' [] sample_information,
         sample_room ''h2'' ''Arts'' []
           \<lparr>av_inputs = Some ''YES'', pc = None, whiteboard = None, projector = None\<rparr>]
        sample_start)) = lectureHall_table sample_start @ created \<and>
     subseq migrated
        [sample_room ''h1'' ''Arts'' [] sample_information,
         sample_room ''h2'' ''Arts'' []
           \<lparr>av_inputs = Some ''YES'', pc = None, whiteboard = None, projector = None\<rparr>] \<and>
     list_all2 (\<lambda>row room.
        lh_room (snd row) = rd_room room \<and>
        hasAvInputs (snd row) = (av_inputs (rd_information room) = Some ''yes'') \<and>
        hasPc (snd row) = (pc (rd_information room) = Some ''yes'') \<and>
        hasWhiteboard (snd row) = (whiteboard (rd_information room) = Some ''yes'') \<and>
        hasProjector (snd row) = (projector (rd_information room) = Some ''yes''))
      created migrated) \<and>
   map snd (lectureHall_table (snd (migrateLectureHalls sample_services
        [JString ''Arts Building'' \<mapsto> ''b1'']
        [sample_room ''h1'' ''Arts'' [] sample_information,
         sample_room ''h2'' ''Arts'' []
           \<lparr>av_inputs = Some ''YES'', pc = None, whiteboard = None, projector = None\<rparr>]
        sample_start))) =
     [\<lparr>lh_buildingId = ''b1'', lh_room = ''Hall h1'', hasAvInputs = True, hasPc = False,
       hasWhiteboard = True, hasProjector = False\<rparr>,
      \<lparr>lh_buildingId = ''b1'', lh_room = ''Hall h2'', hasAvInputs = False, hasPc = False,
       hasWhiteboard = False, hasProjector = False\<rparr>]"
proof
  show "\<exists>created migrated.
     lectureHall_table (snd (migrateLectureHalls sample_services
        [JString ''Arts Building'' \<mapsto> ''b1'']
        [sample_room ''h1'' ''Arts'' [] sample_information,
         sample_room ''h2'' ''Arts'' []
           \<lparr>av_inputs = Some ''YES'', pc = None, whiteboard = None, projector = None\<rparr>]
        sample_start)) = lectureHall_table sample_start @ created \<and>
     subseq migrated
        [sample_room ''h1'' ''Arts'' [] sample_information,
         sample_room ''h2'' ''Arts'' []
           \<lparr>av_inputs = Some ''YES'', pc = None, whiteboard = None, projector = None\<rparr>] \<and>
     list_all2 (\<lambda>row room.
        lh_room (snd row) = rd_room room \<and>
        hasAvInputs (snd row) = (av_inputs (rd_information room) = Some ''yes'') \<and>
        hasPc (snd row) = (pc (rd_information room) = Some ''yes'') \<and>
        hasWhiteboard (snd row) = (whiteboard (rd_information room) = Some ''yes'') \<and>
        hasProjector (snd row) = (projector (rd_information room) = Some ''yes''))
      created migrated"
    by (rule lectureHall_flags_exact_yes [OF surjective_pairing])
  have arts: "normalizeBuildingName ''Arts'' = JString ''Arts Building''"
    by (simp add: normalizeBuildingName_def js_get_def buildingNameMap_def)
  show "map snd (lectureHall_table (snd (migrateLectureHalls sample_services
        [JString ''Arts Building'' \<mapsto> ''b1'']
        [sample_room ''h1'' ''Arts'' [] sample_information,
         sample_room ''h2'' ''Arts'' []
           \<lparr>av_inputs = Some ''YES'', pc = None, whiteboard = None, projector = None\<rparr>]
        sample_start))) =
     [\<lparr>lh_buildingId = ''b1'', lh_room = ''Hall h1'', hasAvInputs = True, hasPc = False,
       hasWhiteboard = True, hasProjector = False\<rparr>,
      \<lparr>lh_buildingId = ''b1'', lh_room = ''Hall h2'', hasAvInputs = False, hasPc = False,
       hasWhiteboard = False, hasProjector = False\<rparr>]"
    by (simp add: migrateLectureHalls_def migrateLectureHall_def perform_def Let_def arts
        sample_room_def sample_information_def sample_services_def sample_start_def)
qed

section \<open>A record whose building does not resolve\<close>











lemma normalizeBuildingName_samples:
  "normalizeBuildingName ''Arts'' = JString ''Arts Building''"
  "normalizeBuildingName ''Annex'' = JString ''Annex''"
  by (simp_all add: normalizeBuildingName_def js_get_def buildingNameMap_def
      Object_prototype_def)


section \<open>Photos of a record without a migrated owner\<close>

lemma processRecordPhotos_no_entry:
  "entityMap recordId = None \<Longrightarrow>
   processRecordPhotos sv ow uid entityMap recordId name images st = st"
  by (simp add: processRecordPhotos_def split: option.splits)

text \<open>
  Claim C10.  A record whose identifier has no entry in the lookup table of its kind is
  passed over by \<^verbatim>\<open>processPhotos\<close>: the run over datasets that hold the record ends in
  the same system (the same calls, hence no download; the same photo rows; the same
  error list) as the run over the datasets without it.
\<close>

theorem photos_skipped_without_entity:
  "(studySpotMap (sr_id room) = None \<longrightarrow>
      processPhotos sv universityId studySpotMap lectureHallMap
        (before @ room # after) rooms st =
      processPhotos sv universityId studySpotMap lectureHallMap
        (before @ after) rooms st) \<and>
   (lectureHallMap (rd_id hall) = None \<longrightarrow>
      processPhotos sv universityId studySpotMap lectureHallMap studyRooms
        (before' @ hall # after') st =
      processPhotos sv universityId studySpotMap lectureHallMap studyRooms
        (before' @ after') st)"
  by (simp add: processPhotos_def processRecordPhotos_no_entry)

text \<open>
  The theorem at a sample input: a study room and a room with one image each, and empty
  lookup tables.  Nothing is called, created or recorded.
\<close>

theorem photos_skipped_without_entity_witness:
  "processPhotos sample_services ''u0'' Map.empty Map.empty
      ([] @ sample_studyRoom ''r1'' ''Arts'' [''http://img/1''] # []) [] sample_start =
   processPhotos sample_services ''u0'' Map.empty Map.empty ([] @ []) [] sample_start \<and>
   processPhotos sample_services ''u0'' Map.empty Map.empty []
      ([] @ sample_room ''h1'' ''Arts'' [''http://img/2''] sample_information # [])
      sample_start =
   processPhotos sample_services ''u0'' Map.empty Map.empty [] ([] @ []) sample_start \<and>
   processPhotos sample_services ''u0'' Map.empty Map.empty
      [sample_studyRoom ''r1'' ''Arts'' [''http://img/1'']]
      [sample_room ''h1'' ''Arts'' [''http://img/2''] sample_information]
      sample_start = sample_start"
proof -
  have "processPhotos sample_services ''u0'' Map.empty Map.empty
      [sample_studyRoom ''r1'' ''Arts'' [''http://img/1'']]
      [sample_room ''h1'' ''Arts'' [''http://img/2''] sample_information]
      sample_start = sample_start"
    by (simp add: processPhotos_def processRecordPhotos_def sample_studyRoom_def
        sample_room_def)
  with photos_skipped_without_entity
    [where studySpotMap = Map.empty and lectureHallMap = Map.empty
       and sv = sample_services and universityId = "''u0''" and st = sample_start
       and room = "sample_studyRoom ''r1'' ''Arts'' [''http://img/1'']"
       and before = "[]" and after = "[]" and rooms = "[]"
       and hall = "sample_room ''h1'' ''Arts'' [''http://img/2''] sample_information"
       and before' = "[]" and after' = "[]" and studyRooms = "[]"]
  show ?thesis by simp
qed

section \<open>Export of an empty collection\<close>

text \<open>
  Claim C8.  When the store answers the query with no documents, and the file system
  accepts the directory and the file, \<^verbatim>\<open>exportCollectionToJson\<close> ends without an error
  and the file of the collection holds the text \<^verbatim>\<open>[]\<close>.
\<close>

theorem export_empty_collection:
  assumes "firestore_get env collectionName = Inr []"
    and "fs_mkdirSync env outputDir = None"
    and "fs_writeFileSync env (path_join env outputDir (collectionName @ ''.json'')) ''[]''
           = None"
  shows "\<exists>fs'. exportCollectionToJson env collectionName outputDir fs = (None, fs') \<and>
     files fs' (path_join env outputDir (collectionName @ ''.json'')) = Some ''[]''"
  using assms
  by (simp add: exportCollectionToJson_def getCollectionData_def saveToJson_def
      JSON_stringify_array_def Let_def)

theorem export_empty_collection_witness:
  "\<exists>fs'. exportCollectionToJson sample_export_env ''feedback'' ''./data''
            \<lparr>directories = [], files = Map.empty\<rparr> = (None, fs') \<and>
     files fs' (path_join sample_export_env ''./data'' (''feedback'' @ ''.json''))
       = Some ''[]''"
  by (rule export_empty_collection) (simp_all add: sample_export_env_def)

section \<open>The dimensions of an optimised image\<close>

lemma bitlen_bounds: "0 < n \<Longrightarrow> 2 ^ (bitlen n - 1) \<le> n \<and> n < 2 ^ bitlen n"
proof (induction n rule: bitlen.induct)
  case (1 n)
  show ?case
  proof (cases "n div 2 = 0")
    case True
    with "1.prems" have "n = 1" by (cases n) auto
    then show ?thesis by (simp add: bitlen.simps [of "Suc 0"] bitlen.simps [of 0])
  next
    case False
    with "1.IH" "1.prems" have ih: "2 ^ (bitlen (n div 2) - 1) \<le> n div 2"
      "n div 2 < 2 ^ bitlen (n div 2)" by auto
    from False have pos: "0 < bitlen (n div 2)" by (subst bitlen.simps) simp
    have b: "bitlen n = Suc (bitlen (n div 2))" using "1.prems" by (subst bitlen.simps) simp
    from pos have e: "2 ^ (bitlen n - 1) = 2 * (2::nat) ^ (bitlen (n div 2) - 1)"
      by (cases "bitlen (n div 2)") (simp_all add: b)
    from ih show ?thesis unfolding e by (simp add: b) linarith
  qed
qed

lemma round_to_53_bits_near:
  fixes n :: nat
  defines "P \<equiv> (2::nat) ^ (bitlen n - 53)"
  shows "2 * round_to_53_bits n \<le> 2 * n + P \<and> 2 * n \<le> 2 * round_to_53_bits n + P \<and>
         P dvd round_to_53_bits n"
proof -
  define q where "q = n div P"
  define r where "r = n mod P"
  define X where "X = q * P"
  have n: "n = X + r" by (simp add: q_def r_def X_def)
  have lt: "r < P" by (simp add: r_def P_def)
  have up: "(q + 1) * P = X + P" by (simp add: X_def algebra_simps)
  have V: "round_to_53_bits n = (if P < 2 * r \<or> (2 * r = P \<and> odd q) then X + P else X)"
    unfolding round_to_53_bits_def Let_def P_def [symmetric] q_def [symmetric]
      r_def [symmetric] up X_def [symmetric] ..
  have d1: "P dvd X" by (simp add: X_def)
  then have d2: "P dvd X + P" by simp
  show ?thesis
    unfolding V using n lt d1 d2 by (auto split: if_splits)
qed


lemma dvd_ge:
  fixes V A P :: nat
  assumes "P dvd V" "P dvd A" "A < V + P"
  shows "A \<le> V"
proof -
  from assms(1,2) obtain v a where va: "V = P * v" "A = P * a" by (auto simp: dvd_def)
  with assms(3) have "P * a < P * (v + 1)" by (simp add: algebra_simps)
  then have "a < v + 1" unfolding mult_less_cancel1 by (rule conjunct2)
  then have "a \<le> v" by simp
  with va show ?thesis by simp
qed

lemma pow_split:
  assumes "53 < b"
  shows "(2::nat) ^ (b - 1) = 2 ^ (b - 53) * 4503599627370496"
    and "(2::nat) ^ b = 2 ^ (b - 53) * 9007199254740992"
proof -
  from assms obtain d where b: "b = Suc (53 + d)" by (auto simp: less_iff_Suc_add)
  have "b - 1 = Suc d + 52" "b = Suc d + 53" "b - 53 = Suc d" by (simp_all add: b)
  then show "(2::nat) ^ (b - 1) = 2 ^ (b - 53) * 4503599627370496"
    and "(2::nat) ^ b = 2 ^ (b - 53) * 9007199254740992"
    by (simp_all only: power_add) simp_all
qed

lemma times_0_3_rounded:
  assumes "0 < w" and "w < 2 ^ 51"
  shows "Math_round (times_0_3 w) = (3 * w + 5) div 10"
proof -
  define N where "N = w * DOUBLE_0_3"
  define P :: nat where "P = 2 ^ (bitlen N - 53)"
  define V where "V = round_to_53_bits N"
  define m where "m = (3 * w + 5) div 10"
  define \<rho> where "\<rho> = (3 * w + 5) mod 10"
  have wb: "w < 2251799813685248" using assms(2) by simp
  have N: "N = 5404319552844595 * w" by (simp add: N_def DOUBLE_0_3_def)
  have Npos: "0 < N" using assms(1) by (simp add: N)
  from round_to_53_bits_near [of N]
  have near: "2 * V \<le> 2 * N + P" "2 * N \<le> 2 * V + P" "P dvd V"
    by (simp_all add: V_def P_def)
  from bitlen_bounds [OF Npos]
  have bl: "2 ^ (bitlen N - 1) \<le> N" "N < 2 ^ bitlen N" by simp_all
  have m\<rho>: "3 * w + 5 = 10 * m + \<rho>" "\<rho> < 10" by (simp_all add: m_def \<rho>_def)
  have close: "9007199254740992 * V \<le> 9007199254740993 * N \<and>
               9007199254740992 * N \<le> 9007199254740992 * V + N"
  proof (cases "bitlen N \<le> 53")
    case True
    then have "P = 1" by (simp add: P_def)
    with near have "V = N" by simp
    then show ?thesis by simp
  next
    case False
    then have "53 < bitlen N" by simp
    from pow_split(1) [OF this] bl(1) have "4503599627370496 * P \<le> N"
      by (simp add: P_def mult.commute)
    with near show ?thesis by simp
  qed
  have tie: "9007199254740992 * (2 * m) \<le> 9007199254740992 + V" if "\<rho> = 0"
  proof -
    from that m\<rho> have "3 * w + 5 = 10 * m" by simp
    then have "\<exists>k. w = 5 * k \<and> 2 * m = 3 * k + 1" by presburger
    then obtain k where k: "w = 5 * k" "2 * m = 3 * k + 1" by blast
    with assms(1) have kpos: "0 < k" by simp
    define A :: nat where "A = 9007199254740992 * (3 * k)"
    have NA: "N + k = A" by (simp add: N k A_def)
    have big: "53 < bitlen N"
    proof (rule ccontr)
      assume "\<not> 53 < bitlen N"
      then have "bitlen N \<le> 53" by simp
      then have "(2::nat) ^ bitlen N \<le> 2 ^ 53" by (rule power_increasing) simp
      with bl(2) have "N < 9007199254740992" by simp
      with NA kpos show False by (simp add: A_def)
    qed
    from pow_split(2) [OF big] bl(2) have hi: "N < 9007199254740992 * P"
      by (simp add: P_def mult.commute)
    have "N < 2 ^ 104" using wb by (simp add: N)
    with bl(1) have "(2::nat) ^ (bitlen N - 1) < 2 ^ 104" by simp
    then have "bitlen N - 1 < 104" by (rule power_less_imp_less_exp [rotated]) simp
    then have "bitlen N - 53 \<le> 53" by simp
    then have "P dvd 2 ^ 53" unfolding P_def by (rule le_imp_power_dvd)
    then have "P dvd 2 ^ 53 * (3 * k)" by (rule dvd_mult2)
    then have PA: "P dvd A" by (simp add: A_def)
    from hi NA have "2 * k < P" by (simp add: A_def)
    with near(2) NA have "A < V + P" by simp
    from dvd_ge [OF near(3) PA this] have "A \<le> V" .
    with k show ?thesis by (simp add: A_def)
  qed
  have tenN: "10 * N + 2 * w = 54043195528445952 * w" by (simp add: N)
  have lower: "m * 2 ^ 55 \<le> 2 * V + 2 ^ 54"
  proof (cases "\<rho> = 0")
    case True
    with tie show ?thesis by simp
  next
    case False
    with close tenN m\<rho> wb show ?thesis by simp
  qed
  have upper: "2 * V + 2 ^ 54 < (m + 1) * 2 ^ 55"
    using close tenN m\<rho> wb by simp
  have "(2 * V + 2 ^ 54) div 2 ^ 55 = m"
    using lower upper by (intro div_nat_eqI) (simp_all add: mult.commute)
  then show ?thesis
    by (simp add: Math_round_def times_0_3_def V_def N_def m_def)
qed





section \<open>Photos of one record\<close>











lemma ph_storagePath_photoData [simp]:
  "ph_storagePath (photoData ow p u e) = p"
  by (cases ow) simp_all




lemma tryProcessImage_optimize_fails:
  "downloadImage sv u st = (Inr imageBuffer, s1) \<Longrightarrow>
   optimizeImage sv imageBuffer s1 = (Inl e, s2) \<Longrightarrow>
   isl (fst (tryProcessImage sv ow uid eid i u st))"
  by (simp add: tryProcessImage_def)

lemma tryProcessImage_upload_fails:
  "downloadImage sv u st = (Inr imageBuffer, s1) \<Longrightarrow>
   optimizeImage sv imageBuffer s1 = (Inr optimizedBuffer, s2) \<Longrightarrow>
   uploadToSupabase sv optimizedBuffer (storagePathOf ow uid eid i) s2 = (Inl e, s3) \<Longrightarrow>
   isl (fst (tryProcessImage sv ow uid eid i u st))"
  by (simp add: tryProcessImage_def)






section \<open>The layout of the object storage\<close>











lemma newDimension_samples: "newDimension (Some 800) = 240" "newDimension (Some 600) = 180"
  by (simp_all add: newDimension_def times_0_3_rounded)




section \<open>The order of the run\<close>

lemma runs_steps_refl: "runs_steps lo hi st st"
  by (simp add: runs_steps_def)

lemma runs_steps_trans:
  assumes "runs_steps lo1 hi1 st s" and "runs_steps lo2 hi2 s s'" and "hi1 \<le> lo2"
  shows "runs_steps (min lo1 lo2) (max hi1 hi2) st s'"
proof -
  from assms(1) obtain cs where cs: "calls s = calls st @ cs" "sorted (map step_of cs)"
    "\<forall>c \<in> set cs. lo1 \<le> step_of c \<and> step_of c \<le> hi1" by (auto simp: runs_steps_def)
  from assms(2) obtain ds where ds: "calls s' = calls s @ ds" "sorted (map step_of ds)"
    "\<forall>c \<in> set ds. lo2 \<le> step_of c \<and> step_of c \<le> hi2" by (auto simp: runs_steps_def)
  have "sorted (map step_of (cs @ ds))"
    using cs(2,3) ds(2,3) assms(3) by (fastforce simp: sorted_append)
  moreover have "\<forall>x \<in> set (cs @ ds). min lo1 lo2 \<le> step_of x \<and> step_of x \<le> max hi1 hi2"
    using cs(3) ds(3) by (auto simp: min_def max_def)
  ultimately show ?thesis
    unfolding runs_steps_def using cs(1) ds(1)
    by (intro exI [of _ "cs @ ds"]) simp
qed

lemma runs_steps_same:
  "runs_steps k k st s \<Longrightarrow> runs_steps k k s s' \<Longrightarrow> runs_steps k k st s'"
  using runs_steps_trans [of k k st s k k s'] by simp

lemma runs_steps_weaken:
  "runs_steps a b st s \<Longrightarrow> a' \<le> a \<Longrightarrow> b \<le> b' \<Longrightarrow> runs_steps a' b' st s"
  unfolding runs_steps_def by fastforce

lemma runs_steps_calls:
  "calls s = calls st @ cs \<Longrightarrow> (\<forall>c \<in> set cs. step_of c = k) \<Longrightarrow> runs_steps k k st s"
  unfolding runs_steps_def
  by (intro exI [of _ cs]) (auto simp: sorted_iff_nth_mono)

lemma runs_steps_only_calls:
  "calls s = calls st \<Longrightarrow> runs_steps lo hi st s"
  by (simp add: runs_steps_def)

lemma perform_calls: "perform c f st = (r, s) \<Longrightarrow> calls s = calls st @ [c]"
  by (auto simp: perform_def split: prod.splits)

lemma perform_runs: "perform c f st = (r, s) \<Longrightarrow> runs_steps (step_of c) (step_of c) st s"
  by (rule runs_steps_calls [where cs = "[c]"]) (auto dest: perform_calls)

lemma fold_runs:
  assumes "\<And>x a. runs_steps k k (g a) (g (f x a))"
  shows "runs_steps k k (g a) (g (fold f xs a))"
proof (induction xs arbitrary: a)
  case Nil
  then show ?case by (simp add: runs_steps_refl)
next
  case (Cons x xs)
  from runs_steps_same [OF assms [of a x] Cons.IH [of "f x a"]] show ?case by simp
qed

lemma createBuilding_runs:
  "runs_steps 3 3 (snd acc) (snd (createBuilding sv uid n acc))"
  by (cases acc)
    (auto simp: createBuilding_def Let_def pushError_def split: prod.splits sum.splits
      dest!: perform_calls intro!: runs_steps_calls [where cs = "[Create Building]"])

lemma createBuildings_runs:
  "runs_steps 3 3 st (snd (createBuildings sv uid studyRooms rooms st))"
  unfolding createBuildings_def
  using fold_runs [where g = snd and f = "createBuilding sv uid" and k = 3
      and a = "(Map.empty, st)", OF createBuilding_runs]
  by simp

lemma migrateStudySpot_runs:
  "runs_steps 4 4 (snd acc) (snd (migrateStudySpot sv bm room acc))"
  by (cases acc)
    (auto simp: migrateStudySpot_def Let_def pushError_def runs_steps_only_calls
      split: prod.splits sum.splits option.splits
      dest!: perform_calls intro!: runs_steps_calls [where cs = "[Create StudySpot]"])

lemma migrateStudySpots_runs:
  "runs_steps 4 4 st (snd (migrateStudySpots sv bm studyRooms st))"
  unfolding migrateStudySpots_def
  using fold_runs [where g = snd and f = "migrateStudySpot sv bm" and k = 4
      and a = "(Map.empty, st)", OF migrateStudySpot_runs]
  by simp

lemma migrateLectureHall_runs:
  "runs_steps 5 5 (snd acc) (snd (migrateLectureHall sv bm room acc))"
  by (cases acc)
    (auto simp: migrateLectureHall_def Let_def pushError_def runs_steps_only_calls
      split: prod.splits sum.splits option.splits
      dest!: perform_calls intro!: runs_steps_calls [where cs = "[Create LectureHall]"])

lemma migrateLectureHalls_runs:
  "runs_steps 5 5 st (snd (migrateLectureHalls sv bm rooms st))"
  unfolding migrateLectureHalls_def
  using fold_runs [where g = snd and f = "migrateLectureHall sv bm" and k = 5
      and a = "(Map.empty, st)", OF migrateLectureHall_runs]
  by simp

lemma downloadImage_runs: "downloadImage sv u st = (r, s) \<Longrightarrow> runs_steps 6 6 st s"
  by (auto simp: downloadImage_def split: prod.splits sum.splits
      dest!: perform_calls intro!: runs_steps_calls [where cs = "[HttpGet u]"])

lemma optimizeImage_runs: "optimizeImage sv b st = (r, s) \<Longrightarrow> runs_steps 6 6 st s"
  apply (auto simp: optimizeImage_def Let_def split: prod.splits sum.splits dest!: perform_calls)
    apply (rule runs_steps_calls [where cs = "[SharpMetadata]"]; simp)
   apply (rule runs_steps_calls [where cs = "[SharpMetadata, SharpResizeWebp _ _ _]"]; simp)
  apply (rule runs_steps_calls [where cs = "[SharpMetadata, SharpResizeWebp _ _ _]"]; simp)
  done

lemma uploadToSupabase_runs: "uploadToSupabase sv b p st = (r, s) \<Longrightarrow> runs_steps 6 6 st s"
  by (auto simp: uploadToSupabase_def split: prod.splits option.splits
      dest!: perform_calls intro!: runs_steps_calls [where cs = "[Upload p]"])

lemma tryProcessImage_runs:
  assumes "tryProcessImage sv ow uid eid i u st = (r, s)"
  shows "runs_steps 6 6 st s"
proof -
  obtain r1 s1 where d: "downloadImage sv u st = (r1, s1)" by (cases "downloadImage sv u st")
  note d' = downloadImage_runs [OF d]
  show ?thesis
  proof (cases r1)
    case (Inl e)
    with assms d d' show ?thesis by (simp add: tryProcessImage_def)
  next
    case (Inr imageBuffer)
    obtain r2 s2 where o: "optimizeImage sv imageBuffer s1 = (r2, s2)"
      by (cases "optimizeImage sv imageBuffer s1")
    note o' = runs_steps_same [OF d' optimizeImage_runs [OF o]]
    show ?thesis
    proof (cases r2)
      case (Inl e)
      with assms d o o' \<open>r1 = Inr imageBuffer\<close> show ?thesis by (simp add: tryProcessImage_def)
    next
      case (Inr optimizedBuffer)
      obtain r3 s3 where
        up: "uploadToSupabase sv optimizedBuffer (storagePathOf ow uid eid i) s2 = (r3, s3)"
        by (cases "uploadToSupabase sv optimizedBuffer (storagePathOf ow uid eid i) s2")
      note up' = runs_steps_same [OF o' uploadToSupabase_runs [OF up]]
      show ?thesis
      proof (cases r3)
        case (Inl e)
        with assms d o up up' \<open>r1 = Inr imageBuffer\<close> \<open>r2 = Inr optimizedBuffer\<close>
        show ?thesis by (simp add: tryProcessImage_def)
      next
        case (Inr publicUrl)
        obtain r4 s4 where c: "perform (Create Photo) (photo_create sv
            (photoData ow (storagePathOf ow uid eid i) publicUrl eid)) s3 = (r4, s4)"
          by (cases "perform (Create Photo) (photo_create sv
            (photoData ow (storagePathOf ow uid eid i) publicUrl eid)) s3")
        from perform_runs [OF c] have "runs_steps 6 6 s3 s4" by simp
        note c' = runs_steps_same [OF up' this]
        from c' have c'': "runs_steps 6 6 st (s4\<lparr>photo_table := pt, stats_photos := n\<rparr>)" for pt n
          by (simp add: runs_steps_def)
        from assms d o up c c' c'' \<open>r1 = Inr imageBuffer\<close> \<open>r2 = Inr optimizedBuffer\<close>
          \<open>r3 = Inr publicUrl\<close>
        show ?thesis by (cases r4) (auto simp: tryProcessImage_def Let_def)
      qed
    qed
  qed
qed

lemma processImage_runs: "runs_steps 6 6 st (processImage sv ow uid eid nm i u st)"
proof (cases "tryProcessImage sv ow uid eid i u st")
  case (Pair r s)
  from tryProcessImage_runs [OF Pair] show ?thesis
    by (cases r) (auto simp: processImage_def Pair pushError_def runs_steps_def)
qed

lemma processImages_runs: "runs_steps 6 6 st (processImages sv ow uid eid nm images i st)"
proof (induction sv ow uid eid nm images i st rule: processImages.induct)
  case (1 sv ow uid eid nm images i st)
  show ?case
  proof (cases "i < length images")
    case True
    from runs_steps_same [OF processImage_runs "1.IH" [OF True]] True show ?thesis
      by (subst processImages.simps) simp
  next
    case False
    then show ?thesis
      by (subst processImages.simps) (simp add: runs_steps_refl)
  qed
qed

lemma processRecordPhotos_runs:
  "runs_steps 6 6 st (processRecordPhotos sv ow uid entityMap recordId nm images st)"
  by (simp add: processRecordPhotos_def runs_steps_refl processImages_runs split: option.splits)

lemma processPhotos_runs:
  "runs_steps 6 6 st (processPhotos sv uid studySpotMap lectureHallMap studyRooms rooms st)"
  unfolding processPhotos_def
  by (rule runs_steps_same;
      rule fold_runs [where g = "\<lambda>s. s"]; rule processRecordPhotos_runs)


lemma runs_steps_seq:
  "runs_steps lo hi st s \<Longrightarrow> runs_steps k k s s' \<Longrightarrow> hi \<le> k \<Longrightarrow> lo \<le> k \<Longrightarrow>
   runs_steps lo k st s'"
  using runs_steps_trans [of lo hi st s k k s'] by (simp add: min_def max_def)

lemma deleteMany_calls:
  "deleteMany sv t st = (r, s) \<Longrightarrow> calls s = calls st @ [DeleteMany t]"
  by (cases t) (auto simp: deleteMany_def split: prod.splits option.splits dest!: perform_calls)

lemma clearExistingData_calls:
  assumes "clearExistingData sv st = (r, s)"
  shows "\<exists>deleted. calls s = calls st @ deleted \<and> deleted \<noteq> [] \<and>
     prefix deleted [DeleteMany Photo, DeleteMany StudySpot, DeleteMany LectureHall,
                     DeleteMany Building, DeleteMany University] \<and>
     (r = None \<longrightarrow> deleted = [DeleteMany Photo, DeleteMany StudySpot, DeleteMany LectureHall,
                     DeleteMany Building, DeleteMany University])"
proof -
  obtain r1 s1 where d1: "deleteMany sv Photo st = (r1, s1)"
    by (cases "deleteMany sv Photo st")
  obtain r2 s2 where d2: "deleteMany sv StudySpot s1 = (r2, s2)"
    by (cases "deleteMany sv StudySpot s1")
  obtain r3 s3 where d3: "deleteMany sv LectureHall s2 = (r3, s3)"
    by (cases "deleteMany sv LectureHall s2")
  obtain r4 s4 where d4: "deleteMany sv Building s3 = (r4, s4)"
    by (cases "deleteMany sv Building s3")
  obtain r5 s5 where d5: "deleteMany sv University s4 = (r5, s5)"
    by (cases "deleteMany sv University s4")
  note c = deleteMany_calls [OF d1] deleteMany_calls [OF d2] deleteMany_calls [OF d3]
    deleteMany_calls [OF d4] deleteMany_calls [OF d5]
  from assms d1 d2 d3 d4 d5 c show ?thesis
    by (cases r1; cases r2; cases r3; cases r4; cases r5)
      (auto simp: clearExistingData_def andThen_def)
qed

lemma ensureStorageBucket_runs:
  "ensureStorageBucket sv st = (r, s) \<Longrightarrow> runs_steps 1 1 st s"
  apply (auto simp: ensureStorageBucket_def split: prod.splits sum.splits if_splits option.splits
      dest!: perform_calls)
     apply (rule runs_steps_calls [where cs = "[ListBuckets]"]; simp)
    apply (rule runs_steps_calls [where cs = "[ListBuckets]"]; simp)
   apply (rule runs_steps_calls [where cs = "[ListBuckets, CreateBucket STORAGE_BUCKET]"]; simp)
  apply (rule runs_steps_calls [where cs = "[ListBuckets, CreateBucket STORAGE_BUCKET]"]; simp)
  done

lemma createUniversity_runs:
  "createUniversity sv st = (r, s) \<Longrightarrow> runs_steps 2 2 st s"
  by (auto simp: createUniversity_def Let_def split: prod.splits sum.splits
      dest!: perform_calls intro!: runs_steps_calls [where cs = "[Create University]"])

lemma migrate_after_clearing:
  assumes clear: "clearExistingData sv st = (None, s0)"
    and run: "migrate sv studyRooms rooms st = (r, final)"
  shows "runs_steps 1 6 s0 final"
proof -
  obtain r1 s1 where b: "ensureStorageBucket sv s0 = (r1, s1)"
    by (cases "ensureStorageBucket sv s0")
  note R1 = ensureStorageBucket_runs [OF b]
  show ?thesis
  proof (cases r1)
    case (Some e)
    with run clear b have "final = s1" by (simp add: migrate_def)
    with R1 show ?thesis by (auto intro: runs_steps_weaken)
  next
    case None
    obtain r2 s2 where u: "createUniversity sv s1 = (r2, s2)"
      by (cases "createUniversity sv s1")
    note R2 = runs_steps_seq [OF R1 createUniversity_runs [OF u]]
    show ?thesis
    proof (cases r2)
      case (Inl e)
      with run clear b u None have "final = s2" by (simp add: migrate_def)
      with R2 show ?thesis by (auto intro: runs_steps_weaken)
    next
      case (Inr universityId)
      obtain bm s3 where cb: "createBuildings sv universityId studyRooms rooms s2 = (bm, s3)"
        by (cases "createBuildings sv universityId studyRooms rooms s2")
      obtain sm s4 where ms: "migrateStudySpots sv bm studyRooms s3 = (sm, s4)"
        by (cases "migrateStudySpots sv bm studyRooms s3")
      obtain hm s5 where mh: "migrateLectureHalls sv bm rooms s4 = (hm, s5)"
        by (cases "migrateLectureHalls sv bm rooms s4")
      have "runs_steps 3 3 s2 s3"
        using createBuildings_runs [of s2 sv universityId studyRooms rooms] cb by simp
      from runs_steps_seq [OF R2 this] have R3: "runs_steps 1 3 s0 s3" by simp
      have "runs_steps 4 4 s3 s4"
        using migrateStudySpots_runs [of s3 sv bm studyRooms] ms by simp
      from runs_steps_seq [OF R3 this] have R4: "runs_steps 1 4 s0 s4" by simp
      have "runs_steps 5 5 s4 s5"
        using migrateLectureHalls_runs [of s4 sv bm rooms] mh by simp
      from runs_steps_seq [OF R4 this] have R5: "runs_steps 1 5 s0 s5" by simp
      from runs_steps_seq [OF R5 processPhotos_runs [of s5 sv universityId sm hm studyRooms rooms]]
      have "runs_steps 1 6 s0 (processPhotos sv universityId sm hm studyRooms rooms s5)" by simp
      moreover from run clear b u None Inr cb ms mh
      have "final = processPhotos sv universityId sm hm studyRooms rooms s5"
        by (simp add: migrate_def)
      ultimately show ?thesis by simp
    qed
  qed
qed


lemma ensureStorageBucket_lists:
  "ensureStorageBucket sv st = (r, s) \<Longrightarrow> \<exists>cs. calls s = calls st @ ListBuckets # cs"
  by (auto simp: ensureStorageBucket_def split: prod.splits sum.splits if_splits option.splits
      dest!: perform_calls)

lemma createUniversity_calls:
  "createUniversity sv st = (r, s) \<Longrightarrow> calls s = calls st @ [Create University]"
  by (auto simp: createUniversity_def Let_def split: prod.splits sum.splits dest!: perform_calls)

lemma runs_steps_calls_grow: "runs_steps lo hi st s \<Longrightarrow> \<exists>cs. calls s = calls st @ cs"
  by (auto simp: runs_steps_def)

lemma migrate_completes:
  assumes clear: "clearExistingData sv st = (None, s0)"
    and run: "migrate sv studyRooms rooms st = (None, final)"
  shows "\<exists>a b. calls final = calls s0 @ ListBuckets # a @ Create University # b"
proof -
  obtain r1 s1 where b: "ensureStorageBucket sv s0 = (r1, s1)"
    by (cases "ensureStorageBucket sv s0")
  obtain r2 s2 where u: "createUniversity sv s1 = (r2, s2)"
    by (cases "createUniversity sv s1")
  from run clear b have r1: "r1 = None" by (cases r1) (simp_all add: migrate_def)
  from run clear b u r1 obtain universityId where r2: "r2 = Inr universityId"
    by (cases r2) (simp_all add: migrate_def)
  obtain bm s3 where cb: "createBuildings sv universityId studyRooms rooms s2 = (bm, s3)"
    by (cases "createBuildings sv universityId studyRooms rooms s2")
  obtain sm s4 where ms: "migrateStudySpots sv bm studyRooms s3 = (sm, s4)"
    by (cases "migrateStudySpots sv bm studyRooms s3")
  obtain hm s5 where mh: "migrateLectureHalls sv bm rooms s4 = (hm, s5)"
    by (cases "migrateLectureHalls sv bm rooms s4")
  from run clear b u r1 r2 cb ms mh
  have final: "final = processPhotos sv universityId sm hm studyRooms rooms s5"
    by (simp add: migrate_def)
  from ensureStorageBucket_lists [OF b] obtain a where a: "calls s1 = calls s0 @ ListBuckets # a"
    by blast
  note c2 = createUniversity_calls [OF u]
  from runs_steps_calls_grow [OF createBuildings_runs [of s2 sv universityId studyRooms rooms]] cb
  obtain c3 where c3: "calls s3 = calls s2 @ c3" by auto
  from runs_steps_calls_grow [OF migrateStudySpots_runs [of s3 sv bm studyRooms]] ms
  obtain c4 where c4: "calls s4 = calls s3 @ c4" by auto
  from runs_steps_calls_grow [OF migrateLectureHalls_runs [of s4 sv bm rooms]] mh
  obtain c5 where c5: "calls s5 = calls s4 @ c5" by auto
  from runs_steps_calls_grow [OF processPhotos_runs [of s5 sv universityId sm hm studyRooms rooms]]
    final
  obtain c6 where c6: "calls final = calls s5 @ c6" by auto
  show ?thesis
    by (intro exI [of _ a] exI [of _ "c3 @ c4 @ c5 @ c6"]) (simp add: a c2 c3 c4 c5 c6)
qed

lemma clearExistingData_empties:
  assumes "clearExistingData sv st = (None, s)"
  shows "photo_table s = [] \<and> studySpot_table s = [] \<and> lectureHall_table s = [] \<and>
         building_table s = [] \<and> university_table s = []"
proof -
  obtain r1 s1 where d1: "deleteMany sv Photo st = (r1, s1)"
    by (cases "deleteMany sv Photo st")
  obtain r2 s2 where d2: "deleteMany sv StudySpot s1 = (r2, s2)"
    by (cases "deleteMany sv StudySpot s1")
  obtain r3 s3 where d3: "deleteMany sv LectureHall s2 = (r3, s3)"
    by (cases "deleteMany sv LectureHall s2")
  obtain r4 s4 where d4: "deleteMany sv Building s3 = (r4, s4)"
    by (cases "deleteMany sv Building s3")
  obtain r5 s5 where d5: "deleteMany sv University s4 = (r5, s5)"
    by (cases "deleteMany sv University s4")
  from assms d1 d2 d3 d4 d5 have none: "r1 = None" "r2 = None" "r3 = None" "r4 = None" "r5 = None"
    and s: "s = s5"
    by (cases r1; cases r2; cases r3; cases r4; cases r5;
        simp add: clearExistingData_def andThen_def)+
  have keep: "deleteMany sv t x = (None, y) \<Longrightarrow>
      (t = Photo \<or> photo_table x = [] \<longrightarrow> photo_table y = []) \<and>
      (t = StudySpot \<or> studySpot_table x = [] \<longrightarrow> studySpot_table y = []) \<and>
      (t = LectureHall \<or> lectureHall_table x = [] \<longrightarrow> lectureHall_table y = []) \<and>
      (t = Building \<or> building_table x = [] \<longrightarrow> building_table y = []) \<and>
      (t = University \<or> university_table x = [] \<longrightarrow> university_table y = [])" for t x y
    by (cases t) (auto simp: deleteMany_def perform_def split: prod.splits option.splits)
  from keep [OF d1 [unfolded none]] keep [OF d2 [unfolded none]] keep [OF d3 [unfolded none]]
    keep [OF d4 [unfolded none]] keep [OF d5 [unfolded none]] s
  show ?thesis by simp
qed

text \<open>
  Claim C7.  In every run of \<^verbatim>\<open>migrate\<close> the calls that leave the process are: first the
  deletions, in the order photo, study spot, lecture hall, building, university (a
  deletion that throws ends the run, so the list may stop early, but it is never
  empty: the run always starts by deleting the photos); then, only after all five
  deletions, the calls of the later steps, in the order of the steps: bucket,
  university, buildings, study spots, lecture halls, photos.  A run that completes has
  listed the buckets and created the university.  After a clearing that succeeds, the
  five tables are empty.
\<close>

theorem migrate_order:
  assumes "migrate sv studyRooms rooms st = (r, final)"
  shows "(\<exists>deleted rest. calls final = calls st @ deleted @ rest \<and>
     deleted \<noteq> [] \<and>
     prefix deleted [DeleteMany Photo, DeleteMany StudySpot, DeleteMany LectureHall,
                     DeleteMany Building, DeleteMany University] \<and>
     (rest \<noteq> [] \<or> r = None \<longrightarrow>
        deleted = [DeleteMany Photo, DeleteMany StudySpot, DeleteMany LectureHall,
                   DeleteMany Building, DeleteMany University]) \<and>
     sorted (map step_of rest) \<and> (\<forall>c \<in> set rest. 1 \<le> step_of c) \<and>
     (r = None \<longrightarrow> ListBuckets \<in> set rest \<and> Create University \<in> set rest)) \<and>
   (\<forall>cleared. clearExistingData sv st = (None, cleared) \<longrightarrow>
      photo_table cleared = [] \<and> studySpot_table cleared = [] \<and>
      lectureHall_table cleared = [] \<and> building_table cleared = [] \<and>
      university_table cleared = [])"
proof (intro conjI allI impI)
  obtain r0 s0 where clear: "clearExistingData sv st = (r0, s0)"
    by (cases "clearExistingData sv st")
  from clearExistingData_calls [OF clear] obtain deleted where
    del: "calls s0 = calls st @ deleted" "deleted \<noteq> []"
      "prefix deleted [DeleteMany Photo, DeleteMany StudySpot, DeleteMany LectureHall,
                     DeleteMany Building, DeleteMany University]"
      "r0 = None \<longrightarrow> deleted = [DeleteMany Photo, DeleteMany StudySpot, DeleteMany LectureHall,
                     DeleteMany Building, DeleteMany University]"
    by blast
  show "\<exists>deleted rest. calls final = calls st @ deleted @ rest \<and>
     deleted \<noteq> [] \<and>
     prefix deleted [DeleteMany Photo, DeleteMany StudySpot, DeleteMany LectureHall,
                     DeleteMany Building, DeleteMany University] \<and>
     (rest \<noteq> [] \<or> r = None \<longrightarrow>
        deleted = [DeleteMany Photo, DeleteMany StudySpot, DeleteMany LectureHall,
                   DeleteMany Building, DeleteMany University]) \<and>
     sorted (map step_of rest) \<and> (\<forall>c \<in> set rest. 1 \<le> step_of c) \<and>
     (r = None \<longrightarrow> ListBuckets \<in> set rest \<and> Create University \<in> set rest)"
  proof (cases r0)
    case (Some e)
    with assms clear have "final = s0" "r = Some e" by (simp_all add: migrate_def)
    with del show ?thesis
      by (intro exI [of _ deleted] exI [of _ "[]"]) simp
  next
    case None
    from migrate_after_clearing [OF clear [unfolded None] assms] obtain rest where
      rest: "calls final = calls s0 @ rest" "sorted (map step_of rest)"
      "\<forall>c \<in> set rest. 1 \<le> step_of c \<and> step_of c \<le> 6"
      by (auto simp: runs_steps_def)
    have "ListBuckets \<in> set rest \<and> Create University \<in> set rest" if "r = None"
    proof -
      from migrate_completes [OF clear [unfolded None] assms [unfolded that]] rest(1)
      obtain a b where "rest = ListBuckets # a @ Create University # b" by auto
      then show ?thesis by simp
    qed
    with del None rest show ?thesis
      by (intro exI [of _ deleted] exI [of _ rest]) simp
  qed
next
  fix cleared
  assume "clearExistingData sv st = (None, cleared)"
  from clearExistingData_empties [OF this]
  show "photo_table cleared = []" "studySpot_table cleared = []"
    "lectureHall_table cleared = []" "building_table cleared = []"
    "university_table cleared = []" by simp_all
qed

lemma sample_migrate_run:
  "migrate sample_services
      [sample_studyRoom ''r1'' ''Arts'' [''http://img/a'']]
      [sample_room ''h1'' ''Arts'' [] sample_information] sample_start =
   (None, sample_start
      \<lparr>world := 16,
       calls := [DeleteMany Photo, DeleteMany StudySpot, DeleteMany LectureHall,
                 DeleteMany Building, DeleteMany University,
                 ListBuckets, CreateBucket ''occupeye-photos'',
                 Create University, Create Building, Create StudySpot, Create LectureHall,
                 HttpGet ''http://img/a'', SharpMetadata, SharpResizeWebp 240 180 85,
                 Upload ''universities/u1/photos/study-spots/s:Room r1/0.webp'', Create Photo],
       photo_table :=
         [(''p:universities/u1/photos/study-spots/s:Room r1/0.webp'',
           \<lparr>ph_storagePath = ''universities/u1/photos/study-spots/s:Room r1/0.webp'',
            ph_url = ''http://cdn/universities/u1/photos/study-spots/s:Room r1/0.webp'',
            ph_studySpotId = Some ''s:Room r1'', ph_lectureHallId = None\<rparr>)],
       studySpot_table :=
         [(''s:Room r1'',
           \<lparr>ss_name = ''Room r1'', ss_buildingId = ''b:Arts Building'',
            ss_location = ''Floor 1'', ss_description = [], ss_features = [],
            ss_noiseLevel = ''quiet'', ss_spaceType = None\<rparr>)],
       lectureHall_table :=
         [(''h:Hall h1'',
           \<lparr>lh_buildingId = ''b:Arts Building'', lh_room = ''Hall h1'', hasAvInputs = True,
            hasPc = False, hasWhiteboard = True, hasProjector = False\<rparr>)],
       building_table :=
         [(''b:Arts Building'',
           \<lparr>b_name = JString ''Arts Building'', b_universityId = ''u1''\<rparr>)],
       university_table :=
         [(''u1'', \<lparr>u_name = ''Wilfrid Laurier University'', u_slug = ''wilfrid-laurier''\<rparr>)],
       bucket_objects :=
         [(''universities/u1/photos/study-spots/s:Room r1/0.webp'', ''http://img/a'')],
       stats_university := 1, stats_buildings := 1, stats_studySpots := 1,
       stats_lectureHalls := 1, stats_photos := 1\<rparr>)"
  by (simp add: migrate_def clearExistingData_def andThen_def deleteMany_def
      ensureStorageBucket_def STORAGE_BUCKET_def createUniversity_def
      createBuildings_def collectBuildingNames_def addBuildingName_def set_add_def
      createBuilding_def migrateStudySpots_def migrateStudySpot_def
      migrateLectureHalls_def migrateLectureHall_def normalizeBuildingName_samples
      processPhotos_def processRecordPhotos_def processImages.simps
      processImage_def tryProcessImage_def downloadImage_def optimizeImage_def
      uploadToSupabase_def perform_def storagePathOf_def decimal_digit newDimension_samples
      sample_studyRoom_def sample_room_def sample_information_def sample_services_def
      sample_start_def Let_def)

lemma sample_clear_run:
  "clearExistingData sample_services sample_start =
     (None, sample_start
        \<lparr>world := 5,
         calls := [DeleteMany Photo, DeleteMany StudySpot, DeleteMany LectureHall,
                   DeleteMany Building, DeleteMany University]\<rparr>)"
  by (simp add: clearExistingData_def andThen_def deleteMany_def perform_def
      sample_services_def sample_start_def)

text \<open>
  The theorem at a sample input (a study room with one image, and a room), with the
  calls of that run.
\<close>

theorem migrate_order_witness:
  "(\<exists>deleted rest.
      calls (snd (migrate sample_services
        [sample_studyRoom ''r1'' ''Arts'' [''http://img/a'']]
        [sample_room ''h1'' ''Arts'' [] sample_information] sample_start))
        = calls sample_start @ deleted @ rest \<and>
      deleted \<noteq> [] \<and>
      prefix deleted [DeleteMany Photo, DeleteMany StudySpot, DeleteMany LectureHall,
                      DeleteMany Building, DeleteMany University] \<and>
      deleted = [DeleteMany Photo, DeleteMany StudySpot, DeleteMany LectureHall,
                 DeleteMany Building, DeleteMany University] \<and>
      sorted (map step_of rest) \<and> list_all (\<lambda>c. 1 \<le> step_of c) rest \<and>
      ListBuckets \<in> set rest \<and> Create University \<in> set rest) \<and>
   photo_table (snd (clearExistingData sample_services sample_start)) = [] \<and>
   studySpot_table (snd (clearExistingData sample_services sample_start)) = [] \<and>
   lectureHall_table (snd (clearExistingData sample_services sample_start)) = [] \<and>
   building_table (snd (clearExistingData sample_services sample_start)) = [] \<and>
   university_table (snd (clearExistingData sample_services sample_start)) = [] \<and>
   calls (snd (migrate sample_services
        [sample_studyRoom ''r1'' ''Arts'' [''http://img/a'']]
        [sample_room ''h1'' ''Arts'' [] sample_information] sample_start)) =
     [DeleteMany Photo, DeleteMany StudySpot, DeleteMany LectureHall,
      DeleteMany Building, DeleteMany University,
      ListBuckets, CreateBucket ''occupeye-photos'',
      Create University, Create Building, Create StudySpot, Create LectureHall,
      HttpGet ''http://img/a'', SharpMetadata, SharpResizeWebp 240 180 85,
      Upload ''universities/u1/photos/study-spots/s:Room r1/0.webp'', Create Photo]"
proof -
  note order = migrate_order [OF sample_migrate_run]
  from order obtain deleted rest where
    "calls (snd (migrate sample_services
        [sample_studyRoom ''r1'' ''Arts'' [''http://img/a'']]
        [sample_room ''h1'' ''Arts'' [] sample_information] sample_start))
        = calls sample_start @ deleted @ rest"
    "deleted \<noteq> []"
    "prefix deleted [DeleteMany Photo, DeleteMany StudySpot, DeleteMany LectureHall,
                      DeleteMany Building, DeleteMany University]"
    "deleted = [DeleteMany Photo, DeleteMany StudySpot, DeleteMany LectureHall,
                 DeleteMany Building, DeleteMany University]"
    "sorted (map step_of rest)" "\<forall>c \<in> set rest. 1 \<le> step_of c"
    "ListBuckets \<in> set rest" "Create University \<in> set rest"
    unfolding sample_migrate_run snd_conv by blast
  then have first: "\<exists>deleted rest.
      calls (snd (migrate sample_services
        [sample_studyRoom ''r1'' ''Arts'' [''http://img/a'']]
        [sample_room ''h1'' ''Arts'' [] sample_information] sample_start))
        = calls sample_start @ deleted @ rest \<and>
      deleted \<noteq> [] \<and>
      prefix deleted [DeleteMany Photo, DeleteMany StudySpot, DeleteMany LectureHall,
                      DeleteMany Building, DeleteMany University] \<and>
      deleted = [DeleteMany Photo, DeleteMany StudySpot, DeleteMany LectureHall,
                 DeleteMany Building, DeleteMany University] \<and>
      sorted (map step_of rest) \<and> list_all (\<lambda>c. 1 \<le> step_of c) rest \<and>
      ListBuckets \<in> set rest \<and> Create University \<in> set rest"
    unfolding list_all_iff by blast
  from order sample_clear_run
  have second: "photo_table (snd (clearExistingData sample_services sample_start)) = [] \<and>
    studySpot_table (snd (clearExistingData sample_services sample_start)) = [] \<and>
    lectureHall_table (snd (clearExistingData sample_services sample_start)) = [] \<and>
    building_table (snd (clearExistingData sample_services sample_start)) = [] \<and>
    university_table (snd (clearExistingData sample_services sample_start)) = []"
    by simp
  have third: "calls (snd (migrate sample_services
        [sample_studyRoom ''r1'' ''Arts'' [''http://img/a'']]
        [sample_room ''h1'' ''Arts'' [] sample_information] sample_start)) =
     [DeleteMany Photo, DeleteMany StudySpot, DeleteMany LectureHall,
      DeleteMany Building, DeleteMany University,
      ListBuckets, CreateBucket ''occupeye-photos'',
      Create University, Create Building, Create StudySpot, Create LectureHall,
      HttpGet ''http://img/a'', SharpMetadata, SharpResizeWebp 240 180 85,
      Upload ''universities/u1/photos/study-spots/s:Room r1/0.webp'', Create Photo]"
    by (simp add: sample_migrate_run)
  from first second third show ?thesis by blast
qed

end
